theory Spec2Isabelle
  imports Complex_Main "HOL-Library.Word" "HOL-Library.Sublist" "HOL-Library.Mapping"
    "HOL-Library.AList_Mapping"
begin

section \<open>Strings and errors\<close>

text \<open>
  A Go \<^verbatim>\<open>error\<close> is modelled by the text that its \<^verbatim>\<open>Error()\<close> method returns: the
  handlers classify errors by that text only, and \<^verbatim>\<open>fmt.Errorf("...: %w", err)\<close>
  builds a message that embeds the text of the wrapped error. A Go pair
  \<^verbatim>\<open>(value, err)\<close> is a sum, \<open>Inl\<close> carrying the error.
  Calls of \<^verbatim>\<open>log.Printf\<close> are not modelled.
\<close>

type_synonym error = string

text \<open>\<^verbatim>\<open>strings.Contains(s, substr)\<close>: \<open>substr\<close> occurs in \<open>s\<close> as a contiguous block.\<close>

definition strings_Contains :: "string \<Rightarrow> string \<Rightarrow> bool" where
  "strings_Contains s substr = sublist substr s"

text \<open>
  \<^verbatim>\<open>strings.SplitN(s, sep, 2)\<close> for a separator of one byte: the text before the first
  separator and the text after it, or \<open>s\<close> alone when it holds no separator.
\<close>

definition strings_SplitN2 :: "string \<Rightarrow> char \<Rightarrow> string list" where
  "strings_SplitN2 s sep =
     (if sep \<in> set s
      then [takeWhile (\<lambda>c. c \<noteq> sep) s, tl (dropWhile (\<lambda>c. c \<noteq> sep) s)]
      else [s])"

section \<open>Data model of the Helm client (pkg/helm/types.go, pkg/helm/client.go)\<close>

record ChartDefinition =
  Name :: string
  Chart :: string
  Version :: string
  RepoURL :: string

text \<open>The fields of \<^verbatim>\<open>action.Install\<close> that \<^verbatim>\<open>InstallChart\<close> sets.\<close>

record InstallClient =
  Namespace :: string
  ReleaseName :: string
  ClientVersion :: string
  Wait :: bool
  Timeout :: nat

text \<open>The fields of a Kubernetes Service that \<^verbatim>\<open>getReleaseNodePorts\<close> reads.\<close>

type_synonym int32 = "32 word"
type_synonym int64 = "64 word"

record ServicePort =
  Port_Name :: string
  Port_Port :: int32
  Port_NodePort :: int32

record Service =
  Spec_Type :: string
  Spec_Ports :: "ServicePort list"

text \<open>
  Every interaction of the client with the outside (the \<^verbatim>\<open>helm\<close> command line, the
  Helm SDK actions, the lock) is recorded as an event, in the order the calls are made,
  together with its outcome.
\<close>

datatype event =
    MuLock
  | MuUnlock
  | Exec "string list" "string list" "error option"
  | HistoryRun nat string
  | LocateChart string string "error option"
  | LoaderLoad string
  | InstallRun InstallClient "error option"
  | UninstallRun nat string
  | ServicesList string string

text \<open>
  The client. Its external collaborators are fields: each one takes the state of the
  outside world and returns its answer and the world after the call. The types of
  releases \<open>'r\<close>, loaded charts \<open>'c\<close> and installation values \<open>'v\<close> belong to the
  Helm SDK and stay abstract; \<open>chart_Name\<close> is \<^verbatim>\<open>chartRequested.Name()\<close>.
\<close>

record ('w, 'r, 'c, 'v) HelmClient =
  config_AppInstallNamespace :: string
  config_HelmTimeout :: nat
  settings_KubeConfig :: string
  os_Environ :: "string list"
  exec_CombinedOutput :: "string list \<Rightarrow> string list \<Rightarrow> 'w \<Rightarrow> (string \<times> error option) \<times> 'w"
  history_Run :: "nat \<Rightarrow> string \<Rightarrow> 'w \<Rightarrow> (error + 'r list) \<times> 'w"
  chartPathOptions_LocateChart :: "string \<Rightarrow> string \<Rightarrow> 'w \<Rightarrow> (error + string) \<times> 'w"
  loader_Load :: "string \<Rightarrow> 'w \<Rightarrow> (error + 'c) \<times> 'w"
  chart_Name :: "'c \<Rightarrow> string"
  install_Run :: "InstallClient \<Rightarrow> 'c \<Rightarrow> 'v \<Rightarrow> 'w \<Rightarrow> (error + 'r) \<times> 'w"
  uninstall_Run :: "nat \<Rightarrow> string \<Rightarrow> 'w \<Rightarrow> (error + 'r) \<times> 'w"
  services_List :: "string \<Rightarrow> string \<Rightarrow> 'w \<Rightarrow> (error + Service list) \<times> 'w"

record 'w st =
  world :: 'w
  trace :: "event list"

definition emit :: "event \<Rightarrow> 'w \<Rightarrow> 'w st \<Rightarrow> 'w st" where
  "emit e w s = \<lparr>world = w, trace = trace s @ [e]\<rparr>"

section \<open>Repository synchronization: \<^verbatim>\<open>UpdateRepos\<close>\<close>

text \<open>
  \<^verbatim>\<open>exec.Command("helm", args...)\<close>, with the environment of the process and, when a
  kubeconfig is set, \<^verbatim>\<open>KUBECONFIG\<close> appended, then \<^verbatim>\<open>cmd.CombinedOutput()\<close>.
\<close>

definition cmd_Env :: "('w, 'r, 'c, 'v) HelmClient \<Rightarrow> string list" where
  "cmd_Env hc =
     os_Environ hc @
     (if settings_KubeConfig hc \<noteq> [] then [''KUBECONFIG='' @ settings_KubeConfig hc] else [])"

definition helm_cli ::
  "('w, 'r, 'c, 'v) HelmClient \<Rightarrow> string list \<Rightarrow> 'w st \<Rightarrow> (string \<times> error option) \<times> 'w st" where
  "helm_cli hc args s =
     (let (res, w') = exec_CombinedOutput hc (''helm'' # args) (cmd_Env hc) (world s)
      in (res, emit (Exec (''helm'' # args) (cmd_Env hc) (snd res)) w' s))"

text \<open>
  The loop over the chart definitions; \<open>addedRepos\<close> is the Go map of the same name.
  A Go map is a \<open>mapping\<close>: \<^verbatim>\<open>_, ok := m[k]\<close> asks whether \<open>Mapping.lookup m k\<close> is
  not \<open>None\<close>, \<^verbatim>\<open>len(m) > 0\<close> whether \<open>m\<close> is not empty, and \<^verbatim>\<open>m[k]\<close> is
  \<open>Mapping.lookup_default\<close> with the zero value of the element type.
\<close>

fun UpdateRepos_loop ::
  "('w, 'r, 'c, 'v) HelmClient \<Rightarrow> ChartDefinition list \<Rightarrow> (string, bool) mapping \<Rightarrow> 'w st
     \<Rightarrow> (string, bool) mapping \<times> 'w st" where
  "UpdateRepos_loop hc [] addedRepos s = (addedRepos, s)"
| "UpdateRepos_loop hc (chart # charts) addedRepos s =
     (if RepoURL chart = [] then UpdateRepos_loop hc charts addedRepos s
      else
        let parts = strings_SplitN2 (Chart chart) CHR ''/'' in
        if length parts < 2 then UpdateRepos_loop hc charts addedRepos s
        else
          let repoName = parts ! 0 in
          if Mapping.lookup addedRepos repoName \<noteq> None then UpdateRepos_loop hc charts addedRepos s
          else
            (case helm_cli hc [''repo'', ''add'', repoName, RepoURL chart, ''--force-update''] s of
               ((output, Some err), s') \<Rightarrow> UpdateRepos_loop hc charts addedRepos s'
             | ((output, None), s') \<Rightarrow> UpdateRepos_loop hc charts (Mapping.update repoName True addedRepos) s'))"

text \<open>
  \<^verbatim>\<open>UpdateRepos\<close> returns a Go \<^verbatim>\<open>error\<close>: \<open>None\<close> is \<^verbatim>\<open>nil\<close>. The refresh of the
  indexes runs only when the loop registered a repository, and its failure is not
  returned.
\<close>

definition UpdateRepos ::
  "('w, 'r, 'c, 'v) HelmClient \<Rightarrow> ChartDefinition list \<Rightarrow> 'w st \<Rightarrow> error option \<times> 'w st" where
  "UpdateRepos hc charts s0 =
     (let s1 = emit MuLock (world s0) s0;
          (addedRepos, s2) = UpdateRepos_loop hc charts Mapping.empty s1;
          s3 = (if \<not> Mapping.is_empty addedRepos
                then (case helm_cli hc [''repo'', ''update''] s2 of
                        ((output, Some err), s') \<Rightarrow> s'
                      | ((output, None), s') \<Rightarrow> s')
                else s2)
      in (None, emit MuUnlock (world s3) s3))"

section \<open>Chart installation: \<^verbatim>\<open>InstallChart\<close>\<close>

text \<open>\<^verbatim>\<open>'%s'\<close> in a format string: the text between two apostrophes.\<close>

definition quoted :: "string \<Rightarrow> string" where
  "quoted x = CHR 0x27 # x @ [CHR 0x27]"

definition err_of :: "error + 'a \<Rightarrow> error option" where
  "err_of r = (case r of Inl e \<Rightarrow> Some e | Inr _ \<Rightarrow> None)"

text \<open>From \<^verbatim>\<open>loader.Load(cp)\<close> to the end of \<^verbatim>\<open>InstallChart\<close>.\<close>

definition InstallChart_load ::
  "('w, 'r, 'c, 'v) HelmClient \<Rightarrow> InstallClient \<Rightarrow> string \<Rightarrow> 'v \<Rightarrow> 'w st \<Rightarrow> (error + 'r) \<times> 'w st" where
  "InstallChart_load hc client cp vals s =
     (let (loaded, w1) = loader_Load hc cp (world s);
          s1 = emit (LoaderLoad cp) w1 s
      in case loaded of
           Inl err \<Rightarrow> (Inl (''failed to load chart from path '' @ cp @ '': '' @ err), s1)
         | Inr chartRequested \<Rightarrow>
             (let (ran, w2) = install_Run hc client chartRequested vals (world s1);
                  s2 = emit (InstallRun client (err_of ran)) w2 s1
              in case ran of
                   Inl err \<Rightarrow>
                     (Inl (''failed to install chart '' @ quoted (chart_Name hc chartRequested) @ '': '' @ err), s2)
                 | Inr rel \<Rightarrow> (Inr rel, s2)))"

text \<open>
  From the construction of the install action to the end: the chart is located, on
  failure the repositories of this one chart are synchronized and the chart is located
  again.
\<close>

definition InstallChart_locate ::
  "('w, 'r, 'c, 'v) HelmClient \<Rightarrow> ChartDefinition \<Rightarrow> string \<Rightarrow> 'v \<Rightarrow> 'w st \<Rightarrow> (error + 'r) \<times> 'w st" where
  "InstallChart_locate hc chartDef releaseName vals s =
     (let client = \<lparr>Namespace = config_AppInstallNamespace hc, ReleaseName = releaseName,
                     ClientVersion = Version chartDef, Wait = True, Timeout = config_HelmTimeout hc\<rparr>;
          (located, w1) = chartPathOptions_LocateChart hc (Version chartDef) (Chart chartDef) (world s);
          s1 = emit (LocateChart (Version chartDef) (Chart chartDef) (err_of located)) w1 s
      in case located of
           Inr cp \<Rightarrow> InstallChart_load hc client cp vals s1
         | Inl err \<Rightarrow>
             (let (errUpdate, s2) = UpdateRepos hc [chartDef] s1;
                  (located2, w3) = chartPathOptions_LocateChart hc (Version chartDef) (Chart chartDef) (world s2);
                  s3 = emit (LocateChart (Version chartDef) (Chart chartDef) (err_of located2)) w3 s2
              in case located2 of
                   Inl err2 \<Rightarrow>
                     (Inl (''could not locate chart '' @ quoted (Chart chartDef) @ '' (version ''
                           @ quoted (Version chartDef) @ '') after repo update: '' @ err2), s3)
                 | Inr cp \<Rightarrow> InstallChart_load hc client cp vals s3))"

definition InstallChart ::
  "('w, 'r, 'c, 'v) HelmClient \<Rightarrow> ChartDefinition \<Rightarrow> string \<Rightarrow> 'v \<Rightarrow> 'w st \<Rightarrow> (error + 'r) \<times> 'w st" where
  "InstallChart hc chartDef releaseName0 vals s =
     (let releaseName = (if releaseName0 = [] then Name chartDef else releaseName0);
          (hist, w1) = history_Run hc 1 releaseName (world s);
          s1 = emit (HistoryRun 1 releaseName) w1 s
      in case hist of
           Inr history \<Rightarrow>
             if length history > 0
             then (Inl (''release '' @ quoted releaseName @ '' already exists in namespace ''
                        @ quoted (config_AppInstallNamespace hc)), s1)
             else InstallChart_locate hc chartDef releaseName vals s1
         | Inl err \<Rightarrow>
             if \<not> strings_Contains err ''release: not found''
             then (Inl (''error checking history for release '' @ releaseName @ '': '' @ err), s1)
             else InstallChart_locate hc chartDef releaseName vals s1)"

section \<open>Release uninstallation: \<^verbatim>\<open>UninstallRelease\<close> and its handler\<close>

definition UninstallRelease ::
  "('w, 'r, 'c, 'v) HelmClient \<Rightarrow> string \<Rightarrow> 'w st \<Rightarrow> (error + 'r) \<times> 'w st" where
  "UninstallRelease hc releaseName s =
     (let (res, w1) = uninstall_Run hc (config_HelmTimeout hc) releaseName (world s);
          s1 = emit (UninstallRun (config_HelmTimeout hc) releaseName) w1 s
      in case res of
           Inl err \<Rightarrow>
             if strings_Contains err ''release: not found''
             then (Inl (''release '' @ quoted releaseName @ '' not found in namespace ''
                        @ quoted (config_AppInstallNamespace hc)), s1)
             else (Inl (''failed to uninstall release '' @ quoted releaseName @ '': '' @ err), s1)
         | Inr r \<Rightarrow> (Inr r, s1))"

text \<open>What \<^verbatim>\<open>c.JSON(code, gin.H{key: text})\<close> sends: the status code and the one field.\<close>

record response =
  status :: nat
  body :: "string \<times> string"

definition http_StatusOK :: nat where "http_StatusOK = 200"
definition http_StatusNotFound :: nat where "http_StatusNotFound = 404"
definition http_StatusInternalServerError :: nat where "http_StatusInternalServerError = 500"

text \<open>\<^verbatim>\<open>UninstallReleaseHandler\<close> of pkg/api/handlers.go.\<close>

definition UninstallReleaseHandler ::
  "('w, 'r, 'c, 'v) HelmClient \<Rightarrow> string \<Rightarrow> 'w st \<Rightarrow> response \<times> 'w st" where
  "UninstallReleaseHandler hc releaseName s =
     (case UninstallRelease hc releaseName s of
        (Inl err, s1) \<Rightarrow>
          if strings_Contains err ''not found''
          then (\<lparr>status = http_StatusNotFound,
                 body = (''error'', ''Release '' @ quoted releaseName @ '' not found.'')\<rparr>, s1)
          else (\<lparr>status = http_StatusInternalServerError, body = (''error'', err)\<rparr>, s1)
      | (Inr r, s1) \<Rightarrow>
          (\<lparr>status = http_StatusOK,
            body = (''message'', ''Release '' @ quoted releaseName @ '' uninstalled successfully.'')\<rparr>, s1))"

section \<open>Node ports of a release: \<^verbatim>\<open>getReleaseNodePorts\<close>\<close>

text \<open>\<^verbatim>\<open>fmt.Sprintf("%d", n)\<close>: the decimal digits, after a minus sign when negative.\<close>

function decimal :: "nat \<Rightarrow> string" where
  "decimal n = (if n < 10 then [''0123456789'' ! n] else decimal (n div 10) @ [''0123456789'' ! (n mod 10)])"
  by pat_completeness auto
termination
  by (relation "measure id") auto

definition Sprintf_d :: "int \<Rightarrow> string" where
  "Sprintf_d i = (if i < 0 then CHR ''-'' # decimal (nat (- i)) else decimal (nat i))"

text \<open>The inner loop, over the ports of one Service.\<close>

fun ports_loop :: "ServicePort list \<Rightarrow> (string, int32) mapping \<Rightarrow> (string, int32) mapping" where
  "ports_loop [] nodePorts = nodePorts"
| "ports_loop (port # ports) nodePorts =
     (if 0 <s Port_NodePort port
      then
        let portName = (if Port_Name port = [] then Sprintf_d (sint (Port_Port port)) else Port_Name port)
        in ports_loop ports (Mapping.update portName (Port_NodePort port) nodePorts)
      else ports_loop ports nodePorts)"

text \<open>The outer loop, over the Services; \<^verbatim>\<open>break\<close> ends it.\<close>

fun services_loop :: "Service list \<Rightarrow> (string, int32) mapping \<Rightarrow> (string, int32) mapping" where
  "services_loop [] nodePorts = nodePorts"
| "services_loop (service # services) nodePorts =
     (if Spec_Type service = ''NodePort'' \<or> Spec_Type service = ''LoadBalancer''
      then
        let nodePorts' = ports_loop (Spec_Ports service) nodePorts
        in if \<not> Mapping.is_empty nodePorts' then nodePorts' else services_loop services nodePorts'
      else services_loop services nodePorts)"

definition getReleaseNodePorts ::
  "('w, 'r, 'c, 'v) HelmClient \<Rightarrow> string \<Rightarrow> string \<Rightarrow> 'w st \<Rightarrow> (string, int32) mapping \<times> 'w st" where
  "getReleaseNodePorts hc releaseName namespace s =
     (let labelSelector = ''app.kubernetes.io/instance='' @ releaseName;
          (serviceList, w1) = services_List hc namespace labelSelector (world s);
          s1 = emit (ServicesList namespace labelSelector) w1 s
      in case serviceList of
           Inl err \<Rightarrow> (Mapping.empty, s1)
         | Inr items \<Rightarrow> (services_loop items Mapping.empty, s1))"

text \<open>
  The enrichment in the words of the specification: the entries of one Service, each
  port with a positive node port under its name, or under its port number when it has
  no name (a later port of the same key replaces an earlier one); and the first Service
  of type NodePort or LoadBalancer that has such a port.
\<close>

definition port_key :: "ServicePort \<Rightarrow> string" where
  "port_key p = (if Port_Name p = [] then Sprintf_d (sint (Port_Port p)) else Port_Name p)"

definition service_entries :: "Service \<Rightarrow> (string, int32) mapping" where
  "service_entries svc =
     Mapping.of_alist (rev (map (\<lambda>p. (port_key p, Port_NodePort p))
                                (filter (\<lambda>p. 0 <s Port_NodePort p) (Spec_Ports svc))))"

definition exposing :: "Service \<Rightarrow> bool" where
  "exposing svc \<longleftrightarrow>
     (Spec_Type svc = ''NodePort'' \<or> Spec_Type svc = ''LoadBalancer'')
     \<and> filter (\<lambda>p. 0 <s Port_NodePort p) (Spec_Ports svc) \<noteq> []"

definition first_exposing_entries :: "Service list \<Rightarrow> (string, int32) mapping" where
  "first_exposing_entries items =
     (case find exposing items of None \<Rightarrow> Mapping.empty | Some svc \<Rightarrow> service_entries svc)"

section \<open>Metrics snapshot: \<^verbatim>\<open>GetClusterMetricsSnapshot\<close> (pkg/metrics)\<close>

text \<open>
  \<^verbatim>\<open>resource.Quantity\<close> and \<^verbatim>\<open>float64\<close> belong to libraries outside the repository:
  the quantities are a type \<open>'q\<close>, the floating-point numbers a type \<open>'f\<close>, and the
  operations the snapshot uses are the fields of \<open>lib\<close>. \<open>Quantity_zero\<close> is the Go
  zero value, which indexing a map at a missing key returns; \<open>float64_zero\<close> is the
  literal \<^verbatim>\<open>0.0\<close>. An \<^verbatim>\<open>int64\<close> is a 64-bit word: \<open>+\<close> and \<open>*\<close> wrap around and
  comparisons are signed. The logging, the clock and the timeout of the two queries are
  not modelled.
\<close>

datatype Format = DecimalExponent | BinarySI | DecimalSI

record ('q, 'f) lib =
  Quantity_MilliValue :: "'q \<Rightarrow> int64"
  Quantity_Value :: "'q \<Rightarrow> int64"
  Quantity_zero :: 'q
  resource_NewMilliQuantity :: "int64 \<Rightarrow> Format \<Rightarrow> 'q"
  resource_NewQuantity :: "int64 \<Rightarrow> Format \<Rightarrow> 'q"
  float64_of_int64 :: "int64 \<Rightarrow> 'f"
  float64_div :: "'f \<Rightarrow> 'f \<Rightarrow> 'f"
  float64_zero :: 'f

record 'q Node =
  Node_Name :: string
  Status_Allocatable :: "(string, 'q) mapping"

record 'q NodeMetricsItem =
  Item_Name :: string
  Usage :: "(string, 'q) mapping"

record 'f NodeMetrics =
  NodeName :: string
  CPUUsageMilliCores :: int64
  MemoryUsageBytes :: int64
  CPUAvailableMilliCores :: int64
  MemoryAvailableBytes :: int64
  CPUUsagePercentage :: 'f
  MemUsagePercentage :: 'f

record 'f ClusterMetrics =
  TotalCPUUsageMilliCores :: int64
  TotalCPUCapacityMilliCores :: int64
  TotalMemoryUsageBytes :: int64
  TotalMemoryCapacityBytes :: int64
  AverageCPUUsagePercentage :: 'f
  AverageMemUsagePercentage :: 'f
  Nodes :: "'f NodeMetrics list"

text \<open>
  The service: each client is modelled by the answer its \<^verbatim>\<open>List\<close> call gives during the
  snapshot; a \<^verbatim>\<open>nil\<close> metrics client is \<open>None\<close>.
\<close>

record 'q MetricsService =
  kubeClient_Nodes_List :: "error + 'q Node list"
  metricsClient_NodeMetricses_List :: "(error + 'q NodeMetricsItem list) option"

text \<open>
  The inner loop: the usage of the first metrics entry of that name, \<open>None\<close> when
  \<^verbatim>\<open>foundMetrics\<close> stays false.
\<close>

fun find_metrics :: "('q, 'f) lib \<Rightarrow> 'q NodeMetricsItem list \<Rightarrow> string \<Rightarrow> ('q \<times> 'q) option" where
  "find_metrics L [] name = None"
| "find_metrics L (nm # nms) name =
     (if Item_Name nm = name
      then Some (Mapping.lookup_default (Quantity_zero L) (Usage nm) ''cpu'', Mapping.lookup_default (Quantity_zero L) (Usage nm) ''memory'')
      else find_metrics L nms name)"

text \<open>The variables that the loop over the nodes updates.\<close>

record 'f totals =
  detailedNodeMetrics :: "'f NodeMetrics list"
  totalCPUUsageMilliCores :: int64
  totalCPUCapacityMilliCores :: int64
  totalMemUsageBytes :: int64
  totalMemCapacityBytes :: int64

text \<open>The percentage with its guard: \<^verbatim>\<open>0.0\<close> unless the capacity is positive.\<close>

definition percent :: "('q, 'f) lib \<Rightarrow> int64 \<Rightarrow> int64 \<Rightarrow> 'f" where
  "percent L usage capacity =
     (if 0 <s capacity
      then float64_div L (float64_of_int64 L (usage * 100)) (float64_of_int64 L capacity)
      else float64_zero L)"

fun nodes_loop ::
  "('q, 'f) lib \<Rightarrow> 'q NodeMetricsItem list \<Rightarrow> 'q Node list \<Rightarrow> 'f totals \<Rightarrow> 'f totals" where
  "nodes_loop L nodeMetricsList [] t = t"
| "nodes_loop L nodeMetricsList (n # nodes) t =
     (let (nodeCPUUsage, nodeMemUsage) =
            (case find_metrics L nodeMetricsList (Node_Name n) of
               Some found \<Rightarrow> found
             | None \<Rightarrow> (resource_NewMilliQuantity L 0 DecimalSI, resource_NewQuantity L 0 BinarySI));
          allocatableCPU = Mapping.lookup_default (Quantity_zero L) (Status_Allocatable n) ''cpu'';
          allocatableMem = Mapping.lookup_default (Quantity_zero L) (Status_Allocatable n) ''memory'';
          nodeCPUUsageMilli = Quantity_MilliValue L nodeCPUUsage;
          nodeMemUsageBytes = Quantity_Value L nodeMemUsage;
          allocatableCPUMilli = Quantity_MilliValue L allocatableCPU;
          allocatableMemBytes = Quantity_Value L allocatableMem
      in nodes_loop L nodeMetricsList nodes
           \<lparr>detailedNodeMetrics = detailedNodeMetrics t @
              [\<lparr>NodeName = Node_Name n,
                CPUUsageMilliCores = nodeCPUUsageMilli,
                MemoryUsageBytes = nodeMemUsageBytes,
                CPUAvailableMilliCores = allocatableCPUMilli,
                MemoryAvailableBytes = allocatableMemBytes,
                CPUUsagePercentage = percent L nodeCPUUsageMilli allocatableCPUMilli,
                MemUsagePercentage = percent L nodeMemUsageBytes allocatableMemBytes\<rparr>],
            totalCPUUsageMilliCores = totalCPUUsageMilliCores t + nodeCPUUsageMilli,
            totalCPUCapacityMilliCores = totalCPUCapacityMilliCores t + allocatableCPUMilli,
            totalMemUsageBytes = totalMemUsageBytes t + nodeMemUsageBytes,
            totalMemCapacityBytes = totalMemCapacityBytes t + allocatableMemBytes\<rparr>)"

definition GetClusterMetricsSnapshot ::
  "('q, 'f) lib \<Rightarrow> 'q MetricsService \<Rightarrow> error + 'f ClusterMetrics" where
  "GetClusterMetricsSnapshot L s =
     (case metricsClient_NodeMetricses_List s of
        None \<Rightarrow>
          Inl ''metrics client not initialized, ensure Metrics Server is installed and API has permissions''
      | Some (Inl err) \<Rightarrow> Inl (''failed to list node metrics: '' @ err)
      | Some (Inr nodeMetricsList) \<Rightarrow>
          (case kubeClient_Nodes_List s of
             Inl err \<Rightarrow> Inl (''failed to list nodes: '' @ err)
           | Inr nodes \<Rightarrow>
               (let t = nodes_loop L nodeMetricsList nodes
                          \<lparr>detailedNodeMetrics = [], totalCPUUsageMilliCores = 0,
                           totalCPUCapacityMilliCores = 0, totalMemUsageBytes = 0,
                           totalMemCapacityBytes = 0\<rparr>
                in Inr \<lparr>TotalCPUUsageMilliCores = totalCPUUsageMilliCores t,
                        TotalCPUCapacityMilliCores = totalCPUCapacityMilliCores t,
                        TotalMemoryUsageBytes = totalMemUsageBytes t,
                        TotalMemoryCapacityBytes = totalMemCapacityBytes t,
                        AverageCPUUsagePercentage =
                          percent L (totalCPUUsageMilliCores t) (totalCPUCapacityMilliCores t),
                        AverageMemUsagePercentage =
                          percent L (totalMemUsageBytes t) (totalMemCapacityBytes t),
                        Nodes = detailedNodeMetrics t\<rparr>)))"

text \<open>
  What one pass of the loop computes for the node \<open>n\<close>: the usage it takes for the
  node, and the entry it appends to \<open>detailedNodeMetrics\<close>.
\<close>

definition node_usage :: "('q, 'f) lib \<Rightarrow> 'q NodeMetricsItem list \<Rightarrow> 'q Node \<Rightarrow> 'q \<times> 'q" where
  "node_usage L nodeMetricsList n =
     (case find_metrics L nodeMetricsList (Node_Name n) of
        Some found \<Rightarrow> found
      | None \<Rightarrow> (resource_NewMilliQuantity L 0 DecimalSI, resource_NewQuantity L 0 BinarySI))"

definition node_entry :: "('q, 'f) lib \<Rightarrow> 'q NodeMetricsItem list \<Rightarrow> 'q Node \<Rightarrow> 'f NodeMetrics" where
  "node_entry L nodeMetricsList n =
     \<lparr>NodeName = Node_Name n,
      CPUUsageMilliCores = Quantity_MilliValue L (fst (node_usage L nodeMetricsList n)),
      MemoryUsageBytes = Quantity_Value L (snd (node_usage L nodeMetricsList n)),
      CPUAvailableMilliCores =
        Quantity_MilliValue L (Mapping.lookup_default (Quantity_zero L) (Status_Allocatable n) ''cpu''),
      MemoryAvailableBytes =
        Quantity_Value L (Mapping.lookup_default (Quantity_zero L) (Status_Allocatable n) ''memory''),
      CPUUsagePercentage =
        percent L (Quantity_MilliValue L (fst (node_usage L nodeMetricsList n)))
          (Quantity_MilliValue L (Mapping.lookup_default (Quantity_zero L) (Status_Allocatable n) ''cpu'')),
      MemUsagePercentage =
        percent L (Quantity_Value L (snd (node_usage L nodeMetricsList n)))
          (Quantity_Value L (Mapping.lookup_default (Quantity_zero L) (Status_Allocatable n) ''memory''))\<rparr>"

section \<open>Reading a trace\<close>

text \<open>The events that a call added: those of the state after it, beyond those before it.\<close>

definition events_since :: "'w st \<Rightarrow> 'w st \<Rightarrow> event list" where
  "events_since s s' = drop (length (trace s)) (trace s')"

text \<open>
  An event that is a run of \<^verbatim>\<open>helm repo add NAME URL --force-update\<close> gives the name,
  the URL and whether the command succeeded.
\<close>

definition repo_add_of :: "event \<Rightarrow> (string \<times> string \<times> bool) option" where
  "repo_add_of e =
     (case e of
        Exec args env res \<Rightarrow>
          (if length args = 6 \<and> take 3 args = [''helm'', ''repo'', ''add''] \<and> args ! 5 = ''--force-update''
           then Some (args ! 3, args ! 4, res = None) else None)
      | _ \<Rightarrow> None)"

text \<open>The names for which a registration was attempted, and those which were registered.\<close>

definition attempted :: "event list \<Rightarrow> string list" where
  "attempted evs = map fst (List.map_filter repo_add_of evs)"

definition registered :: "event list \<Rightarrow> string list" where
  "registered evs = map fst (filter (\<lambda>a. snd (snd a)) (List.map_filter repo_add_of evs))"

definition is_repo_update :: "event \<Rightarrow> bool" where
  "is_repo_update e = (case e of Exec args env res \<Rightarrow> args = [''helm'', ''repo'', ''update''] | _ \<Rightarrow> False)"

definition is_LocateChart :: "event \<Rightarrow> bool" where
  "is_LocateChart e = (case e of LocateChart v c r \<Rightarrow> True | _ \<Rightarrow> False)"

definition is_InstallRun :: "event \<Rightarrow> bool" where
  "is_InstallRun e = (case e of InstallRun c r \<Rightarrow> True | _ \<Rightarrow> False)"

text \<open>The repository name that \<^verbatim>\<open>UpdateRepos\<close> derives from a chart reference.\<close>

definition repo_name :: "string \<Rightarrow> string" where
  "repo_name chartRef = takeWhile (\<lambda>c. c \<noteq> CHR ''/'') chartRef"

text \<open>The command line that registers the repository of a chart definition.\<close>

definition repo_add_cmd :: "ChartDefinition \<Rightarrow> string list" where
  "repo_add_cmd c = [''helm'', ''repo'', ''add'', repo_name (Chart c), RepoURL c, ''--force-update'']"

text \<open>After a registration that succeeded, no later event attempts the same name again.\<close>

fun no_reattempt :: "event list \<Rightarrow> bool" where
  "no_reattempt [] = True"
| "no_reattempt (e # es) =
     ((case repo_add_of e of
         Some (n, u, ok) \<Rightarrow> ok \<longrightarrow> n \<notin> set (attempted es)
       | None \<Rightarrow> True)
      \<and> no_reattempt es)"

text \<open>
  The events of the last part of an installation under the release name \<open>rn\<close>: the
  chart is loaded and, when that succeeds, the install action runs.
\<close>

fun load_events :: "string \<Rightarrow> event list \<Rightarrow> bool" where
  "load_events rn [LoaderLoad cp] = True"
| "load_events rn [LoaderLoad cp, InstallRun client r] = (ReleaseName client = rn)"
| "load_events rn evs = False"

section \<open>A simulated backend\<close>

text \<open>
  A small backend on which the client can be run: the world holds the names of the
  installed releases and of the registered repositories. A chart is located when its
  repository is registered; an installation records the release; \<open>sim_update_fails\<close>
  makes \<^verbatim>\<open>helm repo update\<close> fail, \<open>sim_bad_urls\<close> are the URLs which
  \<^verbatim>\<open>helm repo add\<close> rejects, and a non-empty \<open>sim_fault\<close> is the message with which
  the storage driver fails an uninstallation.
\<close>

record sim =
  sim_releases :: "string list"
  sim_repos :: "string list"
  sim_bad_urls :: "string list"
  sim_update_fails :: bool
  sim_fault :: string
  sim_services :: "Service list"

definition sim_exec :: "string list \<Rightarrow> string list \<Rightarrow> sim \<Rightarrow> (string \<times> error option) \<times> sim" where
  "sim_exec args env w =
     (if length args = 6 \<and> take 3 args = [''helm'', ''repo'', ''add''] \<and> args ! 4 \<notin> set (sim_bad_urls w)
      then (([], None), w\<lparr>sim_repos := args ! 3 # sim_repos w\<rparr>)
      else if args = [''helm'', ''repo'', ''update''] \<and> \<not> sim_update_fails w
      then (([], None), w)
      else ((''Error'', Some ''exit status 1''), w))"

definition sim_history :: "nat \<Rightarrow> string \<Rightarrow> sim \<Rightarrow> (error + string list) \<times> sim" where
  "sim_history mx name w =
     (if name \<in> set (sim_releases w) then (Inr [name], w) else (Inl ''release: not found'', w))"

definition sim_locate :: "string \<Rightarrow> string \<Rightarrow> sim \<Rightarrow> (error + string) \<times> sim" where
  "sim_locate version chartRef w =
     (if repo_name chartRef \<in> set (sim_repos w)
      then (Inr (''/cache/'' @ chartRef), w)
      else (Inl ''no cached repo found'', w))"

definition sim_install :: "InstallClient \<Rightarrow> string \<Rightarrow> unit \<Rightarrow> sim \<Rightarrow> (error + string) \<times> sim" where
  "sim_install client c v w =
     (Inr (ReleaseName client), w\<lparr>sim_releases := ReleaseName client # sim_releases w\<rparr>)"

definition sim_uninstall :: "nat \<Rightarrow> string \<Rightarrow> sim \<Rightarrow> (error + string) \<times> sim" where
  "sim_uninstall t name w =
     (if sim_fault w \<noteq> [] then (Inl (sim_fault w), w)
      else if name \<in> set (sim_releases w)
      then (Inr name, w\<lparr>sim_releases := removeAll name (sim_releases w)\<rparr>)
      else (Inl (''uninstall: Release not loaded: '' @ name @ '': release: not found''), w))"

definition sim_client :: "(sim, string, string, unit) HelmClient" where
  "sim_client =
     \<lparr>config_AppInstallNamespace = ''apps'',
      config_HelmTimeout = 300,
      settings_KubeConfig = [],
      os_Environ = [],
      exec_CombinedOutput = sim_exec,
      history_Run = sim_history,
      chartPathOptions_LocateChart = sim_locate,
      loader_Load = (\<lambda>cp w. (Inr cp, w)),
      chart_Name = (\<lambda>c. c),
      install_Run = sim_install,
      uninstall_Run = sim_uninstall,
      services_List = (\<lambda>ns sel w. (Inr (sim_services w), w))\<rparr>"

definition sim_empty :: sim where
  "sim_empty =
     \<lparr>sim_releases = [], sim_repos = [], sim_bad_urls = [], sim_update_fails = False,
      sim_fault = [], sim_services = []\<rparr>"

text \<open>
  Three Services of one release: a ClusterIP Service, a NodePort Service with a named
  port, an unnamed port and a port without node port, and a LoadBalancer Service.
\<close>

definition demo_services :: "Service list" where
  "demo_services =
     [\<lparr>Spec_Type = ''ClusterIP'',
       Spec_Ports = [\<lparr>Port_Name = ''metrics'', Port_Port = 9090, Port_NodePort = 0\<rparr>]\<rparr>,
      \<lparr>Spec_Type = ''NodePort'',
       Spec_Ports = [\<lparr>Port_Name = ''http'', Port_Port = 80, Port_NodePort = 30080\<rparr>,
                     \<lparr>Port_Name = [], Port_Port = 443, Port_NodePort = 30443\<rparr>,
                     \<lparr>Port_Name = ''admin'', Port_Port = 8081, Port_NodePort = 0\<rparr>]\<rparr>,
      \<lparr>Spec_Type = ''LoadBalancer'',
       Spec_Ports = [\<lparr>Port_Name = ''grpc'', Port_Port = 9000, Port_NodePort = 31000\<rparr>]\<rparr>]"

text \<open>
  A library on which the snapshot can be run: a quantity is a number of thousandths,
  \<open>Value\<close> rounds up to units, and a floating-point number is a real number.
\<close>

definition demo_lib :: "(int, real) lib" where
  "demo_lib =
     \<lparr>Quantity_MilliValue = (\<lambda>q. word_of_int q),
      Quantity_Value = (\<lambda>q. word_of_int ((q + 999) div 1000)),
      Quantity_zero = 0,
      resource_NewMilliQuantity = (\<lambda>v fmt. sint v),
      resource_NewQuantity = (\<lambda>v fmt. sint v * 1000),
      float64_of_int64 = (\<lambda>v. real_of_int (sint v)),
      float64_div = (\<lambda>a b. a / b),
      float64_zero = 0\<rparr>"

text \<open>
  Two nodes: \<^verbatim>\<open>node-a\<close> with a metrics entry, and \<^verbatim>\<open>node-b\<close> without one and with
  no allocatable CPU.
\<close>

definition demo_nodes :: "int Node list" where
  "demo_nodes =
     [\<lparr>Node_Name = ''node-a'',
       Status_Allocatable = Mapping.of_alist [(''cpu'', 1000), (''memory'', 4096000)]\<rparr>,
      \<lparr>Node_Name = ''node-b'',
       Status_Allocatable = Mapping.of_alist [(''memory'', 2048000)]\<rparr>]"

definition demo_metrics :: "int NodeMetricsItem list" where
  "demo_metrics =
     [\<lparr>Item_Name = ''node-a'', Usage = Mapping.of_alist [(''cpu'', 250), (''memory'', 1024000)]\<rparr>]"

definition demo_service :: "int MetricsService" where
  "demo_service =
     \<lparr>kubeClient_Nodes_List = Inr demo_nodes,
      metricsClient_NodeMetricses_List = Some (Inr demo_metrics)\<rparr>"

text \<open>A cluster whose only node has a metrics entry and nothing allocatable.\<close>

definition demo_service_no_capacity :: "int MetricsService" where
  "demo_service_no_capacity =
     \<lparr>kubeClient_Nodes_List = Inr [\<lparr>Node_Name = ''node-c'', Status_Allocatable = Mapping.empty\<rparr>],
      metricsClient_NodeMetricses_List =
        Some (Inr [\<lparr>Item_Name = ''node-c'',
                     Usage = Mapping.of_alist [(''cpu'', 100), (''memory'', 5000000)]\<rparr>])\<rparr>"

definition start :: "'w \<Rightarrow> 'w st" where
  "start w = \<lparr>world = w, trace = []\<rparr>"

definition nginx :: ChartDefinition where
  "nginx = \<lparr>Name = ''nginx'', Chart = ''bitnami/nginx'', Version = ''15.0.0'',
            RepoURL = ''https://charts.bitnami.com/bitnami''\<rparr>"

definition redis :: ChartDefinition where
  "redis = \<lparr>Name = ''redis'', Chart = ''bitnami/redis'', Version = ''18.0.0'',
            RepoURL = ''https://charts.bitnami.com/bitnami''\<rparr>"

section \<open>Traces of the repository synchronization\<close>

lemma SplitN2_length: "length (strings_SplitN2 x c) < 2 \<longleftrightarrow> c \<notin> set x"
  by (simp add: strings_SplitN2_def)

lemma SplitN2_first: "CHR ''/'' \<in> set x \<Longrightarrow> strings_SplitN2 x CHR ''/'' ! 0 = repo_name x"
  by (simp add: strings_SplitN2_def repo_name_def)

lemma trace_emit: "trace (emit e w s) = trace s @ [e]"
  by (simp add: emit_def)

lemma world_emit: "world (emit e w s) = w"
  by (simp add: emit_def)

lemma helm_cli_trace:
  "trace (snd (helm_cli hc args s)) = trace s @ [Exec (''helm'' # args) (cmd_Env hc) (snd (fst (helm_cli hc args s)))]"
  by (simp add: helm_cli_def trace_emit split: prod.splits)

lemma repo_add_of_add:
  "repo_add_of (Exec [''helm'', ''repo'', ''add'', n, u, ''--force-update''] env r) = Some (n, u, r = None)"
  by (simp add: repo_add_of_def)

lemma attempted_Cons:
  "attempted (e # es) = (case repo_add_of e of None \<Rightarrow> attempted es | Some a \<Rightarrow> fst a # attempted es)"
  by (simp add: attempted_def  split: option.splits)

lemma registered_Cons:
  "registered (e # es) =
     (case repo_add_of e of None \<Rightarrow> registered es
      | Some a \<Rightarrow> if snd (snd a) then fst a # registered es else registered es)"
  by (simp add: registered_def  split: option.splits)

lemma registered_subset: "set (registered es) \<subseteq> set (attempted es)"
  by (auto simp: registered_def attempted_def)

lemma UpdateRepos_loop_events:
  "\<exists>evs. trace (snd (UpdateRepos_loop hc cs a s)) = trace s @ evs
     \<and> (\<forall>e\<in>set evs. \<exists>c\<in>set cs. \<exists>r. RepoURL c \<noteq> [] \<and> CHR ''/'' \<in> set (Chart c)
            \<and> e = Exec (repo_add_cmd c) (cmd_Env hc) r)
     \<and> distinct (registered evs)
     \<and> set (attempted evs) \<inter> Mapping.keys a = {}
     \<and> Mapping.keys (fst (UpdateRepos_loop hc cs a s)) = Mapping.keys a \<union> set (registered evs)
     \<and> no_reattempt evs"
proof (induction cs arbitrary: a s)
  case Nil
  show ?case by (simp add: attempted_def registered_def )
next
  case (Cons c cs)
  let ?skip = "RepoURL c = [] \<or> CHR ''/'' \<notin> set (Chart c) \<or> Mapping.lookup a (repo_name (Chart c)) \<noteq> None"
  show ?case
  proof (cases ?skip)
    case True
    then have eq: "UpdateRepos_loop hc (c # cs) a s = UpdateRepos_loop hc cs a s"
      by (auto simp: SplitN2_length SplitN2_first Let_def)
    from Cons.IH [of a s] show ?thesis
      unfolding eq by (auto simp del: UpdateRepos_loop.simps)
  next
    case False
    define n where "n = repo_name (Chart c)"
    define args where "args = [''repo'', ''add'', n, RepoURL c, ''--force-update'']"
    define r where "r = snd (fst (helm_cli hc args s))"
    define s1 where "s1 = snd (helm_cli hc args s)"
    define a1 where "a1 = (if r = None then Mapping.update n True a else a)"
    define e where "e = Exec (repo_add_cmd c) (cmd_Env hc) r"
    have eq: "UpdateRepos_loop hc (c # cs) a s = UpdateRepos_loop hc cs a1 s1"
      using False
      by (auto simp: SplitN2_length SplitN2_first Let_def n_def args_def r_def s1_def a1_def
            split: prod.splits option.splits)
    have tr: "trace s1 = trace s @ [e]"
      by (simp add: s1_def e_def r_def helm_cli_trace args_def repo_add_cmd_def n_def)
    have rao: "repo_add_of e = Some (n, RepoURL c, r = None)"
      by (simp add: e_def repo_add_cmd_def repo_add_of_add n_def)
    have nk: "n \<notin> Mapping.keys a"
      using False by (simp add: n_def keys_dom_lookup dom_def)
    have ka1: "Mapping.keys a1 = (if r = None then insert n (Mapping.keys a) else Mapping.keys a)"
      by (simp add: a1_def)
    from Cons.IH [of a1 s1] obtain evs where
      t: "trace (snd (UpdateRepos_loop hc cs a1 s1)) = trace s1 @ evs"
      and ev: "\<forall>e\<in>set evs. \<exists>c\<in>set cs. \<exists>r. RepoURL c \<noteq> [] \<and> CHR ''/'' \<in> set (Chart c)
            \<and> e = Exec (repo_add_cmd c) (cmd_Env hc) r"
      and d: "distinct (registered evs)"
      and at: "set (attempted evs) \<inter> Mapping.keys a1 = {}"
      and k: "Mapping.keys (fst (UpdateRepos_loop hc cs a1 s1)) = Mapping.keys a1 \<union> set (registered evs)"
      and nr: "no_reattempt evs"
      by blast
    have 1: "trace (snd (UpdateRepos_loop hc (c # cs) a s)) = trace s @ (e # evs)"
      unfolding eq by (simp add: t tr)
    have 2: "\<forall>e\<in>set (e # evs). \<exists>c\<in>set (c # cs). \<exists>r. RepoURL c \<noteq> [] \<and> CHR ''/'' \<in> set (Chart c)
            \<and> e = Exec (repo_add_cmd c) (cmd_Env hc) r"
      using ev False by (auto simp: e_def)
    have 3: "distinct (registered (e # evs))"
      using d at registered_subset [of evs] by (auto simp: registered_Cons rao ka1)
    have 4: "set (attempted (e # evs)) \<inter> Mapping.keys a = {}"
      using at nk by (auto simp: attempted_Cons rao ka1 split: if_splits)
    have 5: "Mapping.keys (fst (UpdateRepos_loop hc (c # cs) a s)) = Mapping.keys a \<union> set (registered (e # evs))"
      unfolding eq by (auto simp: k registered_Cons rao ka1)
    have 6: "no_reattempt (e # evs)"
      using nr at by (auto simp: rao ka1)
    from 1 2 3 4 5 6 show ?thesis by blast
  qed
qed

lemma UpdateRepos_snd:
  "snd (UpdateRepos hc cs s) =
     (let r = UpdateRepos_loop hc cs Mapping.empty (emit MuLock (world s) s);
          s3 = (if Mapping.is_empty (fst r) then snd r else snd (helm_cli hc [''repo'', ''update''] (snd r)))
      in emit MuUnlock (world s3) s3)"
  by (simp add: UpdateRepos_def Let_def split: prod.splits option.splits)

lemma UpdateRepos_fst: "fst (UpdateRepos hc cs s) = None"
  by (simp add: UpdateRepos_def Let_def split: prod.splits)


lemma UpdateRepos_events:
  "\<exists>adds upd. trace (snd (UpdateRepos hc cs s)) = trace s @ MuLock # adds @ upd @ [MuUnlock]
     \<and> (\<forall>e\<in>set adds. \<exists>c\<in>set cs. \<exists>r. RepoURL c \<noteq> [] \<and> CHR ''/'' \<in> set (Chart c)
            \<and> e = Exec (repo_add_cmd c) (cmd_Env hc) r)
     \<and> distinct (registered adds) \<and> no_reattempt adds
     \<and> (if registered adds = [] then upd = []
         else \<exists>r. upd = [Exec [''helm'', ''repo'', ''update''] (cmd_Env hc) r])"
proof -
  define s1 where "s1 = emit MuLock (world s) s"
  define a2 where "a2 = fst (UpdateRepos_loop hc cs Mapping.empty s1)"
  define s2 where "s2 = snd (UpdateRepos_loop hc cs Mapping.empty s1)"
  define s3 where "s3 = (if Mapping.is_empty a2 then s2 else snd (helm_cli hc [''repo'', ''update''] s2))"
  have res: "snd (UpdateRepos hc cs s) = emit MuUnlock (world s3) s3"
    unfolding UpdateRepos_snd s3_def a2_def s2_def s1_def Let_def ..
  have "\<exists>evs. trace s2 = trace s1 @ evs
     \<and> (\<forall>e\<in>set evs. \<exists>c\<in>set cs. \<exists>r. RepoURL c \<noteq> [] \<and> CHR ''/'' \<in> set (Chart c)
            \<and> e = Exec (repo_add_cmd c) (cmd_Env hc) r)
     \<and> distinct (registered evs)
     \<and> set (attempted evs) \<inter> Mapping.keys (Mapping.empty :: (string, bool) mapping) = {}
     \<and> Mapping.keys a2 = Mapping.keys (Mapping.empty :: (string, bool) mapping) \<union> set (registered evs)
     \<and> no_reattempt evs"
    unfolding s2_def a2_def by (rule UpdateRepos_loop_events)
  then obtain adds where all: "trace s2 = trace s1 @ adds
     \<and> (\<forall>e\<in>set adds. \<exists>c\<in>set cs. \<exists>r. RepoURL c \<noteq> [] \<and> CHR ''/'' \<in> set (Chart c)
            \<and> e = Exec (repo_add_cmd c) (cmd_Env hc) r)
     \<and> distinct (registered adds)
     \<and> set (attempted adds) \<inter> Mapping.keys (Mapping.empty :: (string, bool) mapping) = {}
     \<and> Mapping.keys a2 = Mapping.keys (Mapping.empty :: (string, bool) mapping) \<union> set (registered adds)
     \<and> no_reattempt adds" ..
  from all have t: "trace s2 = trace s1 @ adds" by (rule conjunct1)
  from all have ev: "\<forall>e\<in>set adds. \<exists>c\<in>set cs. \<exists>r. RepoURL c \<noteq> [] \<and> CHR ''/'' \<in> set (Chart c)
            \<and> e = Exec (repo_add_cmd c) (cmd_Env hc) r" by (elim conjE)
  from all have d: "distinct (registered adds)" by (elim conjE)
  from all have k: "Mapping.keys a2 = Mapping.keys (Mapping.empty :: (string, bool) mapping) \<union> set (registered adds)" by (elim conjE)
  from all have nr: "no_reattempt adds" by (elim conjE)
  have emp: "Mapping.is_empty a2 \<longleftrightarrow> registered adds = []"
    unfolding Mapping.is_empty_def k by simp
  define upd where "upd = (if registered adds = [] then []
     else [Exec [''helm'', ''repo'', ''update''] (cmd_Env hc) (snd (fst (helm_cli hc [''repo'', ''update''] s2)))])"
  have t3: "trace s3 = trace s2 @ upd"
    unfolding s3_def upd_def emp by (simp add: helm_cli_trace)
  have "trace s1 = trace s @ [MuLock]"
    unfolding s1_def by (rule trace_emit)
  then have tt: "trace (snd (UpdateRepos hc cs s)) = trace s @ MuLock # adds @ upd @ [MuUnlock]"
    unfolding res trace_emit t3 t by simp
  have u: "if registered adds = [] then upd = []
         else \<exists>r. upd = [Exec [''helm'', ''repo'', ''update''] (cmd_Env hc) r]"
    unfolding upd_def by simp
  show ?thesis
    apply (rule exI [of _ adds])
    apply (rule exI [of _ upd])
    using tt ev d nr u apply (intro conjI)
        apply assumption+
    done
qed

lemma events_since_append: "trace s' = trace s @ evs \<Longrightarrow> events_since s s' = evs"
  by (simp add: events_since_def)

lemma attempted_append: "attempted (xs @ ys) = attempted xs @ attempted ys"
  by (simp add: attempted_def List.map_filter_def)

lemma registered_append: "registered (xs @ ys) = registered xs @ registered ys"
  by (simp add: registered_def List.map_filter_def)

lemma repo_add_of_simps:
  "repo_add_of MuLock = None" "repo_add_of MuUnlock = None"
  "repo_add_of (Exec [''helm'', ''repo'', ''update''] env r) = None"
  "repo_add_of (HistoryRun m n) = None" "repo_add_of (LocateChart v c r) = None"
  "repo_add_of (LoaderLoad cp) = None" "repo_add_of (InstallRun cl r) = None"
  "repo_add_of (UninstallRun m n) = None" "repo_add_of (ServicesList a b) = None"
  by (simp_all add: repo_add_of_def)

lemma attempted_simps:
  "attempted [] = []"
  "repo_add_of e = None \<Longrightarrow> attempted (e # es) = attempted es"
  by (simp_all add: attempted_def )

lemma registered_simps:
  "registered [] = []"
  "repo_add_of e = None \<Longrightarrow> registered (e # es) = registered es"
  by (simp_all add: registered_def )


lemma no_reattempt_append_plain:
  "\<forall>e\<in>set ys. repo_add_of e = None \<Longrightarrow> no_reattempt (xs @ ys) = no_reattempt xs"
proof (induction xs)
  case Nil
  then show ?case by (induction ys) auto
next
  case (Cons x xs)
  have "attempted ys = []" using Cons.prems
    by (induction ys) (auto simp: attempted_simps)
  then show ?case using Cons by (simp add: attempted_append split: option.splits)
qed


section \<open>Runs on the simulated backend\<close>

lemma ex_bool: "(\<exists>x::bool. x) = True"
  by auto

lemma trace_start: "trace (start w) = []"
  by (simp add: start_def)

lemma world_start: "world (start w) = w"
  by (simp add: start_def)

lemmas sim_defs =
  sim_client_def sim_exec_def sim_history_def sim_locate_def sim_install_def sim_uninstall_def
  sim_empty_def start_def nginx_def redis_def

lemmas model_defs =
  UpdateRepos_def helm_cli_def cmd_Env_def emit_def strings_SplitN2_def repo_name_def
  InstallChart_def InstallChart_locate_def InstallChart_load_def err_of_def quoted_def
  UninstallRelease_def UninstallReleaseHandler_def strings_Contains_def

lemma sim_sync_two:
  "UpdateRepos sim_client [nginx, redis] (start sim_empty) =
     (None,
      \<lparr>world = sim_empty\<lparr>sim_repos := [''bitnami'']\<rparr>,
       trace = [MuLock,
                Exec [''helm'', ''repo'', ''add'', ''bitnami'', ''https://charts.bitnami.com/bitnami'', ''--force-update''] [] None,
                Exec [''helm'', ''repo'', ''update''] [] None,
                MuUnlock]\<rparr>)"
  by (simp add: sim_defs model_defs Let_def ex_bool)

lemma sim_sync_update_fails:
  "UpdateRepos sim_client [nginx] (start (sim_empty\<lparr>sim_update_fails := True\<rparr>)) =
     (None,
      \<lparr>world = sim_empty\<lparr>sim_repos := [''bitnami''], sim_update_fails := True\<rparr>,
       trace = [MuLock,
                Exec [''helm'', ''repo'', ''add'', ''bitnami'', ''https://charts.bitnami.com/bitnami'', ''--force-update''] [] None,
                Exec [''helm'', ''repo'', ''update''] [] (Some ''exit status 1''),
                MuUnlock]\<rparr>)"
  by (simp add: sim_defs model_defs Let_def ex_bool)



lemma UpdateRepos_events_since:
  "\<exists>adds upd. events_since s (snd (UpdateRepos hc cs s)) = MuLock # adds @ upd @ [MuUnlock]
     \<and> (\<forall>e\<in>set adds. \<exists>c\<in>set cs. \<exists>r. RepoURL c \<noteq> [] \<and> CHR ''/'' \<in> set (Chart c)
            \<and> e = Exec (repo_add_cmd c) (cmd_Env hc) r)
     \<and> distinct (registered adds) \<and> no_reattempt adds
     \<and> (\<forall>e\<in>set upd. repo_add_of e = None \<and> is_repo_update e)
     \<and> length upd \<le> 1
     \<and> attempted (MuLock # adds @ upd @ [MuUnlock]) = attempted adds
     \<and> registered (MuLock # adds @ upd @ [MuUnlock]) = registered adds
     \<and> no_reattempt (MuLock # adds @ upd @ [MuUnlock])"
proof -
  obtain adds upd where
    t: "trace (snd (UpdateRepos hc cs s)) = trace s @ MuLock # adds @ upd @ [MuUnlock]"
    and ev: "\<forall>e\<in>set adds. \<exists>c\<in>set cs. \<exists>r. RepoURL c \<noteq> [] \<and> CHR ''/'' \<in> set (Chart c)
            \<and> e = Exec (repo_add_cmd c) (cmd_Env hc) r"
    and d: "distinct (registered adds)" and nr: "no_reattempt adds"
    and u: "if registered adds = [] then upd = []
         else \<exists>r. upd = [Exec [''helm'', ''repo'', ''update''] (cmd_Env hc) r]"
    using UpdateRepos_events [of hc cs s] by blast
  have es: "events_since s (snd (UpdateRepos hc cs s)) = MuLock # adds @ upd @ [MuUnlock]"
    using t by (rule events_since_append)
  have b: "\<forall>e\<in>set upd. repo_add_of e = None \<and> is_repo_update e"
    using u by (auto simp: is_repo_update_def repo_add_of_simps split: if_splits)
  have l: "length upd \<le> 1"
    using u by (auto split: if_splits)
  have pl: "\<forall>e\<in>set (upd @ [MuUnlock]). repo_add_of e = None"
    using b by (auto simp: repo_add_of_simps)
  have au: "attempted (upd @ [MuUnlock]) = []"
    using pl by (induction upd) (auto simp: attempted_simps repo_add_of_simps)
  have ru: "registered (upd @ [MuUnlock]) = []"
    using registered_subset [of "upd @ [MuUnlock]"] unfolding au by simp
  have a: "attempted (MuLock # adds @ upd @ [MuUnlock]) = attempted adds"
    using au by (simp add: attempted_simps repo_add_of_simps attempted_append)
  have r: "registered (MuLock # adds @ upd @ [MuUnlock]) = registered adds"
    using ru by (simp add: registered_simps repo_add_of_simps registered_append)
  have n: "no_reattempt (MuLock # adds @ upd @ [MuUnlock])"
    using no_reattempt_append_plain [OF pl, of adds] nr by (simp add: repo_add_of_simps)
  from es ev d nr b l a r n show ?thesis by blast
qed

section \<open>Claims about the repository synchronization\<close>

text \<open>
  Claim C1, as the code has it: \<^verbatim>\<open>UpdateRepos\<close> returns \<^verbatim>\<open>nil\<close> on every path, so a
  failure of the final \<^verbatim>\<open>helm repo update\<close> is not returned to the caller; and the only
  commands a call runs are \<^verbatim>\<open>helm repo add\<close> and \<^verbatim>\<open>helm repo update\<close>, so a
  repository that was registered is never removed again.
\<close>

theorem UpdateRepos_returns_nil:
  "fst (UpdateRepos hc charts s) = None
   \<and> (\<forall>e\<in>set (events_since s (snd (UpdateRepos hc charts s))).
         e = MuLock \<or> e = MuUnlock \<or> repo_add_of e \<noteq> None \<or> is_repo_update e)"
proof -
  obtain adds upd where
    t: "trace (snd (UpdateRepos hc charts s)) = trace s @ MuLock # adds @ upd @ [MuUnlock]"
    and ev: "\<forall>e\<in>set adds. \<exists>c\<in>set charts. \<exists>r. RepoURL c \<noteq> [] \<and> CHR ''/'' \<in> set (Chart c)
            \<and> e = Exec (repo_add_cmd c) (cmd_Env hc) r"
    and u: "if registered adds = [] then upd = []
         else \<exists>r. upd = [Exec [''helm'', ''repo'', ''update''] (cmd_Env hc) r]"
    using UpdateRepos_events [of hc charts s] by blast
  have es: "events_since s (snd (UpdateRepos hc charts s)) = MuLock # adds @ upd @ [MuUnlock]"
    using t by (rule events_since_append)
  have a: "\<forall>e\<in>set adds. repo_add_of e \<noteq> None"
    using ev by (auto simp: repo_add_cmd_def repo_add_of_add)
  have b: "\<forall>e\<in>set upd. is_repo_update e"
    using u by (auto simp: is_repo_update_def split: if_splits)
  show ?thesis
    unfolding es using a b by (auto simp: UpdateRepos_fst)
qed

theorem UpdateRepos_returns_nil_witness:
  "fst (UpdateRepos sim_client [nginx, redis] (start sim_empty)) = None
   \<and> events_since (start sim_empty) (snd (UpdateRepos sim_client [nginx, redis] (start sim_empty)))
       = [MuLock,
          Exec [''helm'', ''repo'', ''add'', ''bitnami'', ''https://charts.bitnami.com/bitnami'', ''--force-update''] [] None,
          Exec [''helm'', ''repo'', ''update''] [] None,
          MuUnlock]
   \<and> repo_add_of (Exec [''helm'', ''repo'', ''add'', ''bitnami'', ''https://charts.bitnami.com/bitnami'', ''--force-update''] [] None)
       = Some (''bitnami'', ''https://charts.bitnami.com/bitnami'', True)
   \<and> is_repo_update (Exec [''helm'', ''repo'', ''update''] [] None)"
  using UpdateRepos_returns_nil [of sim_client "[nginx, redis]" "start sim_empty"]
  by (simp add: sim_sync_two events_since_def trace_start repo_add_of_add is_repo_update_def)

text \<open>
  Claim C1 as the specification states it, that a failing index refresh makes the call
  return an error, is false: on the simulated backend with a failing
  \<^verbatim>\<open>helm repo update\<close>, the refresh runs and fails, and the call returns \<^verbatim>\<open>nil\<close>.
\<close>

theorem UpdateRepos_refresh_failure_counterexample:
  "Exec [''helm'', ''repo'', ''update''] [] (Some ''exit status 1'')
     \<in> set (events_since (start (sim_empty\<lparr>sim_update_fails := True\<rparr>))
              (snd (UpdateRepos sim_client [nginx] (start (sim_empty\<lparr>sim_update_fails := True\<rparr>)))))
   \<and> fst (UpdateRepos sim_client [nginx] (start (sim_empty\<lparr>sim_update_fails := True\<rparr>))) = None"
  by (simp add: sim_sync_update_fails events_since_def trace_start)





section \<open>Traces of an installation\<close>

lemma UpdateRepos_trace_since:
  "trace (snd (UpdateRepos hc cs s)) = trace s @ events_since s (snd (UpdateRepos hc cs s))"
  using UpdateRepos_events [of hc cs s] by (auto simp: events_since_def)

lemma UpdateRepos_events_kinds:
  "filter is_LocateChart (events_since s (snd (UpdateRepos hc cs s))) = []
   \<and> filter is_InstallRun (events_since s (snd (UpdateRepos hc cs s))) = []
   \<and> filter (\<lambda>x. x = MuLock) (events_since s (snd (UpdateRepos hc cs s))) = [MuLock]"
proof -
  obtain adds upd where
    es: "events_since s (snd (UpdateRepos hc cs s)) = MuLock # adds @ upd @ [MuUnlock]"
    and ev: "\<forall>e\<in>set adds. \<exists>c\<in>set cs. \<exists>r. RepoURL c \<noteq> [] \<and> CHR ''/'' \<in> set (Chart c)
            \<and> e = Exec (repo_add_cmd c) (cmd_Env hc) r"
    and u: "\<forall>e\<in>set upd. repo_add_of e = None \<and> is_repo_update e"
    using UpdateRepos_events_since [of s hc cs] by blast
  have a: "\<forall>e\<in>set adds. \<not> is_LocateChart e \<and> \<not> is_InstallRun e \<and> e \<noteq> MuLock"
    using ev by (auto simp: is_LocateChart_def is_InstallRun_def)
  have b: "\<forall>e\<in>set upd. \<not> is_LocateChart e \<and> \<not> is_InstallRun e \<and> e \<noteq> MuLock"
    using u by (auto simp: is_LocateChart_def is_InstallRun_def is_repo_update_def split: event.splits)
  from a have a1: "filter is_LocateChart adds = []" "filter is_InstallRun adds = []"
      "filter (\<lambda>x. x = MuLock) adds = []"
    by (simp_all add: filter_empty_conv)
  from b have b1: "filter is_LocateChart upd = []" "filter is_InstallRun upd = []"
      "filter (\<lambda>x. x = MuLock) upd = []"
    by (simp_all add: filter_empty_conv)
  show ?thesis
    unfolding es by (simp add: a1 b1 is_LocateChart_def is_InstallRun_def)
qed

lemma InstallChart_load_trace:
  "\<exists>evs. trace (snd (InstallChart_load hc client cp v s)) = trace s @ LoaderLoad cp # evs
     \<and> (evs = [] \<or> (\<exists>r. evs = [InstallRun client r]))
     \<and> (\<forall>rel. fst (InstallChart_load hc client cp v s) = Inr rel \<longrightarrow>
           (\<exists>c w. install_Run hc client c v w = (Inr rel, world (snd (InstallChart_load hc client cp v s)))))"
  by (auto simp: InstallChart_load_def Let_def trace_emit world_emit split: prod.splits sum.splits)


lemma load_events_kinds:
  assumes "load_events rn post"
  shows "filter is_LocateChart post = []" "filter (\<lambda>x. x = MuLock) post = []"
    "\<forall>client r. InstallRun client r \<in> set post \<longrightarrow> ReleaseName client = rn"
  using assms by (induction rn post rule: load_events.induct) (auto simp: is_LocateChart_def)

lemma events_since_emit: "events_since s (emit e w s) = [e]"
  by (simp add: events_since_def trace_emit)

lemma events_since_trans:
  "trace s1 = trace s @ xs \<Longrightarrow> trace s2 = trace s1 @ ys \<Longrightarrow> events_since s s2 = xs @ ys"
  by (simp add: events_since_def)

lemma InstallChart_load_events:
  "trace s1 = trace s @ xs \<Longrightarrow> ReleaseName client = rn \<Longrightarrow>
   \<exists>post. events_since s (snd (InstallChart_load hc client cp v s1)) = xs @ post \<and> load_events rn post"
proof -
  assume a: "trace s1 = trace s @ xs" and c: "ReleaseName client = rn"
  obtain evs where t: "trace (snd (InstallChart_load hc client cp v s1)) = trace s1 @ LoaderLoad cp # evs"
    and e: "evs = [] \<or> (\<exists>r. evs = [InstallRun client r])"
    using InstallChart_load_trace [of hc client cp v s1] by blast
  have "events_since s (snd (InstallChart_load hc client cp v s1)) = xs @ LoaderLoad cp # evs"
    using a t by (rule events_since_trans)
  moreover have "load_events rn (LoaderLoad cp # evs)"
    using e c by auto
  ultimately show ?thesis by blast
qed

lemma InstallChart_locate_found:
  assumes "chartPathOptions_LocateChart hc (Version d) (Chart d) (world s) = (Inr cp, w1)"
    and "client = \<lparr>Namespace = config_AppInstallNamespace hc, ReleaseName = rn,
                     ClientVersion = Version d, Wait = True, Timeout = config_HelmTimeout hc\<rparr>"
  shows "InstallChart_locate hc d rn v s =
           InstallChart_load hc client cp v (emit (LocateChart (Version d) (Chart d) None) w1 s)"
  using assms by (simp add: InstallChart_locate_def err_of_def)

lemma InstallChart_locate_retry_fails:
  assumes "chartPathOptions_LocateChart hc (Version d) (Chart d) (world s) = (Inl e, w1)"
    and "s1 = emit (LocateChart (Version d) (Chart d) (Some e)) w1 s"
    and "UpdateRepos hc [d] s1 = (errUpdate, s2)"
    and "chartPathOptions_LocateChart hc (Version d) (Chart d) (world s2) = (Inl e2, w3)"
  shows "InstallChart_locate hc d rn v s =
           (Inl (''could not locate chart '' @ quoted (Chart d) @ '' (version ''
                 @ quoted (Version d) @ '') after repo update: '' @ e2),
            emit (LocateChart (Version d) (Chart d) (Some e2)) w3 s2)"
  using assms by (simp add: InstallChart_locate_def err_of_def)

lemma InstallChart_locate_retry_found:
  assumes "chartPathOptions_LocateChart hc (Version d) (Chart d) (world s) = (Inl e, w1)"
    and "s1 = emit (LocateChart (Version d) (Chart d) (Some e)) w1 s"
    and "UpdateRepos hc [d] s1 = (errUpdate, s2)"
    and "chartPathOptions_LocateChart hc (Version d) (Chart d) (world s2) = (Inr cp, w3)"
    and "client = \<lparr>Namespace = config_AppInstallNamespace hc, ReleaseName = rn,
                     ClientVersion = Version d, Wait = True, Timeout = config_HelmTimeout hc\<rparr>"
  shows "InstallChart_locate hc d rn v s =
           InstallChart_load hc client cp v (emit (LocateChart (Version d) (Chart d) None) w3 s2)"
  using assms by (simp add: InstallChart_locate_def err_of_def)

lemma InstallChart_locate_events:
  assumes pre: "trace s = trace s0 @ xs"
  shows "\<exists>r1 rest. events_since s0 (snd (InstallChart_locate hc d rn v s)) =
            xs @ LocateChart (Version d) (Chart d) r1 # rest
     \<and> (case r1 of
          None \<Rightarrow> load_events rn rest
        | Some e \<Rightarrow>
            (\<exists>s1 r2 post. trace s1 = trace s0 @ xs @ [LocateChart (Version d) (Chart d) (Some e)]
               \<and> rest = events_since s1 (snd (UpdateRepos hc [d] s1)) @ LocateChart (Version d) (Chart d) r2 # post
               \<and> (case r2 of
                    None \<Rightarrow> load_events rn post
                  | Some e2 \<Rightarrow> post = [] \<and> fst (InstallChart_locate hc d rn v s) =
                      Inl (''could not locate chart '' @ quoted (Chart d) @ '' (version ''
                           @ quoted (Version d) @ '') after repo update: '' @ e2))))"
proof -
  define client where "client = \<lparr>Namespace = config_AppInstallNamespace hc, ReleaseName = rn,
                     ClientVersion = Version d, Wait = True, Timeout = config_HelmTimeout hc\<rparr>"
  have cn: "ReleaseName client = rn" by (simp add: client_def)
  obtain located w1 where l1: "chartPathOptions_LocateChart hc (Version d) (Chart d) (world s) = (located, w1)"
    by (cases "chartPathOptions_LocateChart hc (Version d) (Chart d) (world s)")
  show ?thesis
  proof (cases located)
    case (Inr cp)
    define s1 where "s1 = emit (LocateChart (Version d) (Chart d) None) w1 s"
    have t1: "trace s1 = trace s0 @ (xs @ [LocateChart (Version d) (Chart d) None])"
      by (simp add: s1_def trace_emit pre)
    have eq: "InstallChart_locate hc d rn v s = InstallChart_load hc client cp v s1"
      unfolding s1_def using l1 [unfolded Inr] client_def by (rule InstallChart_locate_found)
    from InstallChart_load_events [OF t1 cn, of hc cp v] obtain post where
      "events_since s0 (snd (InstallChart_load hc client cp v s1)) =
         (xs @ [LocateChart (Version d) (Chart d) None]) @ post" "load_events rn post"
      by blast
    then have "events_since s0 (snd (InstallChart_locate hc d rn v s)) =
            xs @ LocateChart (Version d) (Chart d) None # post \<and> load_events rn post"
      unfolding eq by simp
    then show ?thesis
      by (intro exI [of _ None] exI [of _ post]) simp
  next
    case (Inl e)
    define s1 where "s1 = emit (LocateChart (Version d) (Chart d) (Some e)) w1 s"
    have t1: "trace s1 = trace s0 @ xs @ [LocateChart (Version d) (Chart d) (Some e)]"
      by (simp add: s1_def trace_emit pre)
    obtain errUpdate s2 where u: "UpdateRepos hc [d] s1 = (errUpdate, s2)"
      by (cases "UpdateRepos hc [d] s1")
    define sync where "sync = events_since s1 (snd (UpdateRepos hc [d] s1))"
    have t2: "trace s2 = trace s1 @ sync"
      using UpdateRepos_trace_since [of hc "[d]" s1] by (simp add: u sync_def)
    obtain located2 w3 where l2: "chartPathOptions_LocateChart hc (Version d) (Chart d) (world s2) = (located2, w3)"
      by (cases "chartPathOptions_LocateChart hc (Version d) (Chart d) (world s2)")
    show ?thesis
    proof (cases located2)
      case e2: (Inl e2)
      define s3 where "s3 = emit (LocateChart (Version d) (Chart d) (Some e2)) w3 s2"
      have eq: "InstallChart_locate hc d rn v s =
          (Inl (''could not locate chart '' @ quoted (Chart d) @ '' (version ''
                           @ quoted (Version d) @ '') after repo update: '' @ e2), s3)"
        unfolding s3_def using l1 [unfolded Inl] s1_def u l2 [unfolded e2]
        by (rule InstallChart_locate_retry_fails)
      have t3: "trace s3 = trace s0 @ (xs @ LocateChart (Version d) (Chart d) (Some e)
                # sync @ [LocateChart (Version d) (Chart d) (Some e2)])"
        by (simp add: s3_def trace_emit t2 t1)
      have a: "events_since s0 (snd (InstallChart_locate hc d rn v s)) =
          xs @ LocateChart (Version d) (Chart d) (Some e) # sync @ [LocateChart (Version d) (Chart d) (Some e2)]"
        unfolding eq snd_conv using t3 by (rule events_since_append)
      have b: "fst (InstallChart_locate hc d rn v s) =
          Inl (''could not locate chart '' @ quoted (Chart d) @ '' (version ''
                           @ quoted (Version d) @ '') after repo update: '' @ e2)"
        unfolding eq by simp
      have "\<exists>s1 r2 post. trace s1 = trace s0 @ xs @ [LocateChart (Version d) (Chart d) (Some e)]
               \<and> sync @ [LocateChart (Version d) (Chart d) (Some e2)] =
                    events_since s1 (snd (UpdateRepos hc [d] s1)) @ LocateChart (Version d) (Chart d) r2 # post
               \<and> (case r2 of
                    None \<Rightarrow> load_events rn post
                  | Some e2 \<Rightarrow> post = [] \<and> fst (InstallChart_locate hc d rn v s) =
                      Inl (''could not locate chart '' @ quoted (Chart d) @ '' (version ''
                           @ quoted (Version d) @ '') after repo update: '' @ e2))"
        using t1 b by (intro exI [of _ s1] exI [of _ "Some e2"] exI [of _ "[]"]) (simp add: sync_def)
      with a show ?thesis
        by (intro exI [of _ "Some e"] exI [of _ "sync @ [LocateChart (Version d) (Chart d) (Some e2)]"]) simp
    next
      case cp: (Inr cp)
      define s3 where "s3 = emit (LocateChart (Version d) (Chart d) None) w3 s2"
      have eq: "InstallChart_locate hc d rn v s = InstallChart_load hc client cp v s3"
        unfolding s3_def using l1 [unfolded Inl] s1_def u l2 [unfolded cp] client_def
        by (rule InstallChart_locate_retry_found)
      have t3: "trace s3 = trace s0 @ (xs @ LocateChart (Version d) (Chart d) (Some e)
                # sync @ [LocateChart (Version d) (Chart d) None])"
        by (simp add: s3_def trace_emit t2 t1)
      from InstallChart_load_events [OF t3 cn, of hc cp v] obtain post where
        es: "events_since s0 (snd (InstallChart_load hc client cp v s3)) =
         (xs @ LocateChart (Version d) (Chart d) (Some e)
                # sync @ [LocateChart (Version d) (Chart d) None]) @ post"
        and le: "load_events rn post"
        by blast
      have a: "events_since s0 (snd (InstallChart_locate hc d rn v s)) =
          xs @ LocateChart (Version d) (Chart d) (Some e) # sync @ LocateChart (Version d) (Chart d) None # post"
        unfolding eq using es by simp
      have "\<exists>s1 r2 post'. trace s1 = trace s0 @ xs @ [LocateChart (Version d) (Chart d) (Some e)]
               \<and> sync @ LocateChart (Version d) (Chart d) None # post =
                    events_since s1 (snd (UpdateRepos hc [d] s1)) @ LocateChart (Version d) (Chart d) r2 # post'
               \<and> (case r2 of
                    None \<Rightarrow> load_events rn post'
                  | Some e2 \<Rightarrow> post' = [] \<and> fst (InstallChart_locate hc d rn v s) =
                      Inl (''could not locate chart '' @ quoted (Chart d) @ '' (version ''
                           @ quoted (Version d) @ '') after repo update: '' @ e2))"
        using t1 le by (intro exI [of _ s1] exI [of _ None] exI [of _ post]) (simp add: sync_def)
      with a show ?thesis
        by (intro exI [of _ "Some e"] exI [of _ "sync @ LocateChart (Version d) (Chart d) None # post"]) simp
    qed
  qed
qed

lemma InstallChart_locate_success:
  assumes "fst (InstallChart_locate hc d rn v s) = Inr rel"
  shows "\<exists>client c w. ReleaseName client = rn
           \<and> install_Run hc client c v w = (Inr rel, world (snd (InstallChart_locate hc d rn v s)))"
proof -
  define client where "client = \<lparr>Namespace = config_AppInstallNamespace hc, ReleaseName = rn,
                     ClientVersion = Version d, Wait = True, Timeout = config_HelmTimeout hc\<rparr>"
  have cn: "ReleaseName client = rn" by (simp add: client_def)
  have load: "\<exists>client c w. ReleaseName client = rn
           \<and> install_Run hc client c v w = (Inr rel, world (snd (InstallChart_locate hc d rn v s)))"
    if eq: "InstallChart_locate hc d rn v s = InstallChart_load hc client cp v s'" for cp s'
  proof -
    from assms have "fst (InstallChart_load hc client cp v s') = Inr rel"
      unfolding eq .
    with InstallChart_load_trace [of hc client cp v s'] obtain c w where
      "install_Run hc client c v w = (Inr rel, world (snd (InstallChart_load hc client cp v s')))"
      by blast
    then show ?thesis
      unfolding eq using cn by blast
  qed
  obtain located w1 where l1: "chartPathOptions_LocateChart hc (Version d) (Chart d) (world s) = (located, w1)"
    by (cases "chartPathOptions_LocateChart hc (Version d) (Chart d) (world s)")
  show ?thesis
  proof (cases located)
    case (Inr cp)
    show ?thesis
      by (rule load, rule InstallChart_locate_found [OF l1 [unfolded Inr] client_def])
  next
    case (Inl e)
    define s1 where "s1 = emit (LocateChart (Version d) (Chart d) (Some e)) w1 s"
    obtain errUpdate s2 where u: "UpdateRepos hc [d] s1 = (errUpdate, s2)"
      by (cases "UpdateRepos hc [d] s1")
    obtain located2 w3 where l2: "chartPathOptions_LocateChart hc (Version d) (Chart d) (world s2) = (located2, w3)"
      by (cases "chartPathOptions_LocateChart hc (Version d) (Chart d) (world s2)")
    show ?thesis
    proof (cases located2)
      case e2: (Inl e2)
      have "fst (InstallChart_locate hc d rn v s) =
          Inl (''could not locate chart '' @ quoted (Chart d) @ '' (version ''
                           @ quoted (Version d) @ '') after repo update: '' @ e2)"
        unfolding InstallChart_locate_retry_fails [OF l1 [unfolded Inl] s1_def u l2 [unfolded e2]] by simp
      with assms show ?thesis by simp
    next
      case cp: (Inr cp)
      show ?thesis
        by (rule load, rule InstallChart_locate_retry_found [OF l1 [unfolded Inl] s1_def u l2 [unfolded cp] client_def])
    qed
  qed
qed

lemma InstallChart_exists:
  assumes "history_Run hc 1 rn (world s) = (Inr h, w1)" and "h \<noteq> []"
    and "rn = (if rn0 = [] then Name d else rn0)"
  shows "InstallChart hc d rn0 v s =
           (Inl (''release '' @ quoted rn @ '' already exists in namespace ''
                 @ quoted (config_AppInstallNamespace hc)), emit (HistoryRun 1 rn) w1 s)"
  using assms by (simp add: InstallChart_def Let_def del: One_nat_def)

lemma InstallChart_cases:
  assumes "rn = (if rn0 = [] then Name d else rn0)"
  shows "\<exists>w1. InstallChart hc d rn0 v s = InstallChart_locate hc d rn v (emit (HistoryRun 1 rn) w1 s)
            \<or> (\<exists>msg. InstallChart hc d rn0 v s = (Inl msg, emit (HistoryRun 1 rn) w1 s))"
proof -
  obtain hist w1 where h: "history_Run hc 1 rn (world s) = (hist, w1)"
    by (cases "history_Run hc 1 rn (world s)")
  have "InstallChart hc d rn0 v s = InstallChart_locate hc d rn v (emit (HistoryRun 1 rn) w1 s)
            \<or> (\<exists>msg. InstallChart hc d rn0 v s = (Inl msg, emit (HistoryRun 1 rn) w1 s))"
    using h assms by (cases hist) (auto simp: InstallChart_def Let_def simp del: One_nat_def)
  then show ?thesis ..
qed

lemma InstallChart_events:
  assumes "rn = (if rn0 = [] then Name d else rn0)"
  shows "(events_since s (snd (InstallChart hc d rn0 v s)) = [HistoryRun 1 rn]
            \<and> (\<exists>msg. fst (InstallChart hc d rn0 v s) = Inl msg))
       \<or> (\<exists>s1. trace s1 = trace s @ [HistoryRun 1 rn]
              \<and> InstallChart hc d rn0 v s = InstallChart_locate hc d rn v s1)"
proof -
  from InstallChart_cases [OF assms, of hc v s] obtain w1 where
    c: "InstallChart hc d rn0 v s = InstallChart_locate hc d rn v (emit (HistoryRun 1 rn) w1 s)
            \<or> (\<exists>msg. InstallChart hc d rn0 v s = (Inl msg, emit (HistoryRun 1 rn) w1 s))"
    by blast
  then show ?thesis
  proof
    assume "InstallChart hc d rn0 v s = InstallChart_locate hc d rn v (emit (HistoryRun 1 rn) w1 s)"
    moreover have "trace (emit (HistoryRun 1 rn) w1 s) = trace s @ [HistoryRun 1 rn]"
      by (rule trace_emit)
    ultimately show ?thesis by blast
  next
    assume "\<exists>msg. InstallChart hc d rn0 v s = (Inl msg, emit (HistoryRun 1 rn) w1 s)"
    then obtain msg where "InstallChart hc d rn0 v s = (Inl msg, emit (HistoryRun 1 rn) w1 s)" ..
    then show ?thesis by (simp add: events_since_emit)
  qed
qed

lemma sim_install_fresh:
  "InstallChart sim_client nginx [] () (start sim_empty) =
     (Inr ''nginx'',
      \<lparr>world = sim_empty\<lparr>sim_releases := [''nginx''], sim_repos := [''bitnami'']\<rparr>,
       trace = [HistoryRun 1 ''nginx'',
                LocateChart ''15.0.0'' ''bitnami/nginx'' (Some ''no cached repo found''),
                MuLock,
                Exec [''helm'', ''repo'', ''add'', ''bitnami'', ''https://charts.bitnami.com/bitnami'', ''--force-update''] [] None,
                Exec [''helm'', ''repo'', ''update''] [] None,
                MuUnlock,
                LocateChart ''15.0.0'' ''bitnami/nginx'' None,
                LoaderLoad ''/cache/bitnami/nginx'',
                InstallRun \<lparr>Namespace = ''apps'', ReleaseName = ''nginx'', ClientVersion = ''15.0.0'',
                             Wait = True, Timeout = 300\<rparr> None]\<rparr>)"
  by (simp add: sim_defs model_defs Let_def ex_bool del: One_nat_def)

lemma sim_install_again:
  "InstallChart sim_client nginx [] ()
     \<lparr>world = sim_empty\<lparr>sim_releases := [''nginx''], sim_repos := [''bitnami'']\<rparr>, trace = tr\<rparr> =
     (Inl (''release '' @ quoted ''nginx'' @ '' already exists in namespace '' @ quoted ''apps''),
      \<lparr>world = sim_empty\<lparr>sim_releases := [''nginx''], sim_repos := [''bitnami'']\<rparr>,
       trace = tr @ [HistoryRun 1 ''nginx'']\<rparr>)"
  by (simp add: sim_defs model_defs Let_def ex_bool del: One_nat_def)

lemma sim_install_unlocatable:
  "InstallChart sim_client nginx [] ()
     (start (sim_empty\<lparr>sim_bad_urls := [''https://charts.bitnami.com/bitnami'']\<rparr>)) =
     (Inl (''could not locate chart '' @ quoted ''bitnami/nginx'' @ '' (version '' @ quoted ''15.0.0''
           @ '') after repo update: no cached repo found''),
      \<lparr>world = sim_empty\<lparr>sim_bad_urls := [''https://charts.bitnami.com/bitnami'']\<rparr>,
       trace = [HistoryRun 1 ''nginx'',
                LocateChart ''15.0.0'' ''bitnami/nginx'' (Some ''no cached repo found''),
                MuLock,
                Exec [''helm'', ''repo'', ''add'', ''bitnami'', ''https://charts.bitnami.com/bitnami'', ''--force-update''] []
                  (Some ''exit status 1''),
                MuUnlock,
                LocateChart ''15.0.0'' ''bitnami/nginx'' (Some ''no cached repo found'')]\<rparr>)"
  by (simp add: sim_defs model_defs Let_def ex_bool del: One_nat_def)


lemma InstallChart_events_shape:
  assumes rn: "rn = (if rn0 = [] then Name d else rn0)"
  shows "\<exists>rest. events_since s (snd (InstallChart hc d rn0 v s)) = HistoryRun 1 rn # rest
           \<and> (\<forall>client r. InstallRun client r \<in> set rest \<longrightarrow> ReleaseName client = rn)"
proof -
  from InstallChart_events [OF rn, of s hc v]
  show ?thesis
  proof
    assume "events_since s (snd (InstallChart hc d rn0 v s)) = [HistoryRun 1 rn]
            \<and> (\<exists>msg. fst (InstallChart hc d rn0 v s) = Inl msg)"
    then show ?thesis by simp
  next
    assume "\<exists>s1. trace s1 = trace s @ [HistoryRun 1 rn]
              \<and> InstallChart hc d rn0 v s = InstallChart_locate hc d rn v s1"
    then obtain s1 where t: "trace s1 = trace s @ [HistoryRun 1 rn]"
      and eq: "InstallChart hc d rn0 v s = InstallChart_locate hc d rn v s1"
      by blast
    from InstallChart_locate_events [OF t, of hc d rn v] obtain r1 rest where
      es: "events_since s (snd (InstallChart_locate hc d rn v s1)) =
            [HistoryRun 1 rn] @ LocateChart (Version d) (Chart d) r1 # rest"
      and c: "case r1 of
          None \<Rightarrow> load_events rn rest
        | Some e \<Rightarrow>
            (\<exists>s1' r2 post. trace s1' = trace s @ [HistoryRun 1 rn] @ [LocateChart (Version d) (Chart d) (Some e)]
               \<and> rest = events_since s1' (snd (UpdateRepos hc [d] s1')) @ LocateChart (Version d) (Chart d) r2 # post
               \<and> (case r2 of
                    None \<Rightarrow> load_events rn post
                  | Some e2 \<Rightarrow> post = [] \<and> fst (InstallChart_locate hc d rn v s1) =
                      Inl (''could not locate chart '' @ quoted (Chart d) @ '' (version ''
                           @ quoted (Version d) @ '') after repo update: '' @ e2)))"
      by blast
    have "\<forall>client r. InstallRun client r \<in> set rest \<longrightarrow> ReleaseName client = rn"
    proof (cases r1)
      case None
      with c have "load_events rn rest" by simp
      then show ?thesis by (rule load_events_kinds(3))
    next
      case (Some e)
      with c obtain s1' r2 post where
        r: "rest = events_since s1' (snd (UpdateRepos hc [d] s1')) @ LocateChart (Version d) (Chart d) r2 # post"
        and p: "case r2 of None \<Rightarrow> load_events rn post | Some e2 \<Rightarrow> post = [] \<and> fst (InstallChart_locate hc d rn v s1) =
                      Inl (''could not locate chart '' @ quoted (Chart d) @ '' (version ''
                           @ quoted (Version d) @ '') after repo update: '' @ e2)"
        by auto
      have "filter is_InstallRun (events_since s1' (snd (UpdateRepos hc [d] s1'))) = []"
        using UpdateRepos_events_kinds [of s1' hc "[d]"] by simp
      then have a: "\<forall>client r. InstallRun client r \<notin> set (events_since s1' (snd (UpdateRepos hc [d] s1')))"
        by (auto simp: filter_empty_conv is_InstallRun_def)
      have b: "\<forall>client r. InstallRun client r \<in> set post \<longrightarrow> ReleaseName client = rn"
      proof (cases r2)
        case None
        with p have "load_events rn post" by simp
        then show ?thesis by (rule load_events_kinds(3))
      next
        case (Some e2)
        with p show ?thesis by simp
      qed
      show ?thesis unfolding r using a b by auto
    qed
    with es show ?thesis unfolding eq by simp
  qed
qed

section \<open>Claims about the installation\<close>

text \<open>
  Claim C9: an empty release name makes \<^verbatim>\<open>InstallChart\<close> behave as if the caller had
  given the chart's catalog short name, the \<^verbatim>\<open>Name\<close> field of the chart definition: the
  history is queried under that name, and every run of the install action carries it
  as its release name.
\<close>

theorem InstallChart_default_release_name:
  "InstallChart hc d [] v s = InstallChart hc d (Name d) v s
   \<and> (\<exists>rest. events_since s (snd (InstallChart hc d [] v s)) = HistoryRun 1 (Name d) # rest
         \<and> (\<forall>client r. InstallRun client r \<in> set rest \<longrightarrow> ReleaseName client = Name d))"
proof -
  have "InstallChart hc d [] v s = InstallChart hc d (Name d) v s"
    by (simp add: InstallChart_def)
  moreover have "\<exists>rest. events_since s (snd (InstallChart hc d [] v s)) = HistoryRun 1 (Name d) # rest
         \<and> (\<forall>client r. InstallRun client r \<in> set rest \<longrightarrow> ReleaseName client = Name d)"
    by (rule InstallChart_events_shape) simp
  ultimately show ?thesis ..
qed

theorem InstallChart_default_release_name_witness:
  "Name nginx = ''nginx''
   \<and> fst (InstallChart sim_client nginx [] () (start sim_empty)) = Inr ''nginx''
   \<and> InstallChart sim_client nginx [] () (start sim_empty)
       = InstallChart sim_client nginx ''nginx'' () (start sim_empty)
   \<and> hd (events_since (start sim_empty) (snd (InstallChart sim_client nginx [] () (start sim_empty))))
       = HistoryRun 1 ''nginx''
   \<and> last (events_since (start sim_empty) (snd (InstallChart sim_client nginx [] () (start sim_empty))))
       = InstallRun \<lparr>Namespace = ''apps'', ReleaseName = ''nginx'', ClientVersion = ''15.0.0'',
                     Wait = True, Timeout = 300\<rparr> None"
proof -
  have n: "Name nginx = ''nginx''" by (simp add: nginx_def)
  have e: "InstallChart sim_client nginx ''nginx'' () (start sim_empty)
             = InstallChart sim_client nginx [] () (start sim_empty)"
    using InstallChart_default_release_name [of sim_client nginx "()" "start sim_empty"]
    unfolding n by simp
  show ?thesis
    unfolding e by (simp add: n sim_install_fresh events_since_def trace_start del: One_nat_def)
qed

lemma sim_backend_records:
  "\<forall>client c vals w r w'. install_Run sim_client client c vals w = (Inr r, w') \<longrightarrow>
     (\<exists>h' w''. history_Run sim_client 1 (ReleaseName client) w' = (Inr h', w'') \<and> h' \<noteq> [])"
  by (auto simp: sim_client_def sim_install_def sim_history_def)

text \<open>
  Claim C2: when the history of the resolved release name holds at least one record,
  \<^verbatim>\<open>InstallChart\<close> returns the error ``release ... already exists in namespace ...'',
  and the history query is the only call it makes: the chart is not located and nothing
  is installed. Hence, on a backend that records the releases it installs, an
  installation that succeeded is followed by a failure of the same request with that
  error.
\<close>

theorem InstallChart_rejects_existing_release:
  assumes rn: "rn = (if rn0 = [] then Name d else rn0)"
  shows "(history_Run hc 1 rn (world s) = (Inr h, w1) \<and> h \<noteq> [] \<longrightarrow>
            InstallChart hc d rn0 v s =
              (Inl (''release '' @ quoted rn @ '' already exists in namespace ''
                    @ quoted (config_AppInstallNamespace hc)),
               emit (HistoryRun 1 rn) w1 s)
            \<and> events_since s (snd (InstallChart hc d rn0 v s)) = [HistoryRun 1 rn])
       \<and> ((\<forall>client c vals w r w'. install_Run hc client c vals w = (Inr r, w') \<longrightarrow>
               (\<exists>h' w''. history_Run hc 1 (ReleaseName client) w' = (Inr h', w'') \<and> h' \<noteq> []))
            \<and> InstallChart hc d rn0 v t = (Inr rel, t1) \<longrightarrow>
            (\<exists>t2. InstallChart hc d rn0 v t1 =
                     (Inl (''release '' @ quoted rn @ '' already exists in namespace ''
                           @ quoted (config_AppInstallNamespace hc)), t2)
                  \<and> events_since t1 t2 = [HistoryRun 1 rn]))"
proof (intro conjI impI)
  assume a: "history_Run hc 1 rn (world s) = (Inr h, w1) \<and> h \<noteq> []"
  then show e: "InstallChart hc d rn0 v s =
              (Inl (''release '' @ quoted rn @ '' already exists in namespace ''
                    @ quoted (config_AppInstallNamespace hc)),
               emit (HistoryRun 1 rn) w1 s)"
    using rn by (intro InstallChart_exists) auto
  show "events_since s (snd (InstallChart hc d rn0 v s)) = [HistoryRun 1 rn]"
    unfolding e by (simp add: events_since_emit)
next
  assume a: "(\<forall>client c vals w r w'. install_Run hc client c vals w = (Inr r, w') \<longrightarrow>
               (\<exists>h' w''. history_Run hc 1 (ReleaseName client) w' = (Inr h', w'') \<and> h' \<noteq> []))
            \<and> InstallChart hc d rn0 v t = (Inr rel, t1)"
  then have law: "\<And>client c vals w r w'. install_Run hc client c vals w = (Inr r, w') \<Longrightarrow>
               \<exists>h' w''. history_Run hc 1 (ReleaseName client) w' = (Inr h', w'') \<and> h' \<noteq> []"
    and ok: "InstallChart hc d rn0 v t = (Inr rel, t1)"
    by blast+
  from InstallChart_events [OF rn, of t hc v] ok obtain s1 where
    eq: "InstallChart hc d rn0 v t = InstallChart_locate hc d rn v s1"
    by auto
  have "fst (InstallChart_locate hc d rn v s1) = Inr rel" "snd (InstallChart_locate hc d rn v s1) = t1"
    using ok unfolding eq by simp_all
  with InstallChart_locate_success [of hc d rn v s1 rel] obtain client c w where
    "ReleaseName client = rn" "install_Run hc client c v w = (Inr rel, world t1)"
    by auto
  with law [of client c v w rel "world t1"] obtain h' w'' where
    h: "history_Run hc 1 rn (world t1) = (Inr h', w'')" "h' \<noteq> []"
    by auto
  have e: "InstallChart hc d rn0 v t1 =
              (Inl (''release '' @ quoted rn @ '' already exists in namespace ''
                    @ quoted (config_AppInstallNamespace hc)),
               emit (HistoryRun 1 rn) w'' t1)"
    using h rn by (rule InstallChart_exists)
  show "\<exists>t2. InstallChart hc d rn0 v t1 =
                     (Inl (''release '' @ quoted rn @ '' already exists in namespace ''
                           @ quoted (config_AppInstallNamespace hc)), t2)
                  \<and> events_since t1 t2 = [HistoryRun 1 rn]"
    unfolding e by (simp add: events_since_emit)
qed

theorem InstallChart_rejects_existing_release_witness:
  "history_Run sim_client 1 ''nginx'' (sim_empty\<lparr>sim_releases := [''nginx''], sim_repos := [''bitnami'']\<rparr>)
     = (Inr [''nginx''], sim_empty\<lparr>sim_releases := [''nginx''], sim_repos := [''bitnami'']\<rparr>)
   \<and> fst (InstallChart sim_client nginx [] () (start sim_empty)) = Inr ''nginx''
   \<and> fst (InstallChart sim_client nginx [] () (snd (InstallChart sim_client nginx [] () (start sim_empty))))
       = Inl (''release '' @ quoted ''nginx'' @ '' already exists in namespace '' @ quoted ''apps'')
   \<and> events_since (snd (InstallChart sim_client nginx [] () (start sim_empty)))
        (snd (InstallChart sim_client nginx [] () (snd (InstallChart sim_client nginx [] () (start sim_empty)))))
       = [HistoryRun 1 ''nginx'']"
proof -
  define W where "W = sim_empty\<lparr>sim_releases := [''nginx''], sim_repos := [''bitnami'']\<rparr>"
  define T1 where "T1 = snd (InstallChart sim_client nginx [] () (start sim_empty))"
  have rn: "''nginx'' = (if ([]::string) = [] then Name nginx else [])"
    by (simp add: nginx_def)
  have ns: "config_AppInstallNamespace sim_client = ''apps''"
    by (simp add: sim_client_def)
  have w: "world T1 = W"
    by (simp add: T1_def W_def sim_install_fresh)
  have h: "history_Run sim_client 1 ''nginx'' W = (Inr [''nginx''], W)"
    by (simp add: W_def sim_client_def sim_history_def)
  have ok: "InstallChart sim_client nginx [] () (start sim_empty) = (Inr ''nginx'', T1)"
    by (simp add: T1_def sim_install_fresh)
  note T = InstallChart_rejects_existing_release [OF rn, of sim_client T1 "[''nginx'']" W "()" "start sim_empty" "''nginx''" T1]
  from T have a: "InstallChart sim_client nginx [] () T1 =
              (Inl (''release '' @ quoted ''nginx'' @ '' already exists in namespace '' @ quoted ''apps''),
               emit (HistoryRun 1 ''nginx'') W T1)"
    using h by (simp add: w ns)
  from T sim_backend_records ok obtain t2 where
    b: "InstallChart sim_client nginx [] () T1 =
              (Inl (''release '' @ quoted ''nginx'' @ '' already exists in namespace '' @ quoted ''apps''), t2)"
       "events_since T1 t2 = [HistoryRun 1 ''nginx'']"
    unfolding ns by blast
  show ?thesis
    using h ok b unfolding T1_def [symmetric] W_def [symmetric] by simp
qed

text \<open>
  Claim C3: when the first attempt of \<^verbatim>\<open>InstallChart\<close> to locate the chart fails, the
  call runs \<^verbatim>\<open>UpdateRepos\<close> once, on the list that holds this chart definition alone,
  and locates the chart a second and last time; when that attempt fails too, the call
  returns the error ``could not locate chart ...'' and the install action never runs.
\<close>

theorem InstallChart_retries_location_once:
  assumes rn: "rn = (if rn0 = [] then Name d else rn0)"
    and first: "find is_LocateChart (events_since s (snd (InstallChart hc d rn0 v s)))
                  = Some (LocateChart ver ch (Some e))"
  shows "\<exists>s1 r2 post.
       trace s1 = trace s @ [HistoryRun 1 rn, LocateChart (Version d) (Chart d) (Some e)]
     \<and> events_since s (snd (InstallChart hc d rn0 v s)) =
         [HistoryRun 1 rn, LocateChart (Version d) (Chart d) (Some e)]
         @ events_since s1 (snd (UpdateRepos hc [d] s1))
         @ LocateChart (Version d) (Chart d) r2 # post
     \<and> length (filter is_LocateChart (events_since s (snd (InstallChart hc d rn0 v s)))) = 2
     \<and> length (filter (\<lambda>x. x = MuLock) (events_since s (snd (InstallChart hc d rn0 v s)))) = 1
     \<and> (\<forall>e2. r2 = Some e2 \<longrightarrow>
           post = []
           \<and> filter is_InstallRun (events_since s (snd (InstallChart hc d rn0 v s))) = []
           \<and> fst (InstallChart hc d rn0 v s) =
               Inl (''could not locate chart '' @ quoted (Chart d) @ '' (version ''
                    @ quoted (Version d) @ '') after repo update: '' @ e2))"
proof -
  let ?E = "events_since s (snd (InstallChart hc d rn0 v s))"
  from InstallChart_events [OF rn, of s hc v] first obtain s0 where
    t0: "trace s0 = trace s @ [HistoryRun 1 rn]"
    and eq: "InstallChart hc d rn0 v s = InstallChart_locate hc d rn v s0"
    by (auto simp: is_LocateChart_def)
  from InstallChart_locate_events [OF t0, of hc d rn v] obtain r1 rest where
    es: "?E = [HistoryRun 1 rn] @ LocateChart (Version d) (Chart d) r1 # rest"
    and c: "case r1 of
          None \<Rightarrow> load_events rn rest
        | Some e \<Rightarrow>
            (\<exists>s1 r2 post. trace s1 = trace s @ [HistoryRun 1 rn] @ [LocateChart (Version d) (Chart d) (Some e)]
               \<and> rest = events_since s1 (snd (UpdateRepos hc [d] s1)) @ LocateChart (Version d) (Chart d) r2 # post
               \<and> (case r2 of
                    None \<Rightarrow> load_events rn post
                  | Some e2 \<Rightarrow> post = [] \<and> fst (InstallChart_locate hc d rn v s0) =
                      Inl (''could not locate chart '' @ quoted (Chart d) @ '' (version ''
                           @ quoted (Version d) @ '') after repo update: '' @ e2)))"
    unfolding eq by blast
  have r1: "r1 = Some e"
    using first unfolding es by (simp add: is_LocateChart_def)
  from c obtain s1 r2 post where
    t1: "trace s1 = trace s @ [HistoryRun 1 rn, LocateChart (Version d) (Chart d) (Some e)]"
    and r: "rest = events_since s1 (snd (UpdateRepos hc [d] s1)) @ LocateChart (Version d) (Chart d) r2 # post"
    and p: "case r2 of
              None \<Rightarrow> load_events rn post
            | Some e2 \<Rightarrow> post = [] \<and> fst (InstallChart_locate hc d rn v s0) =
                      Inl (''could not locate chart '' @ quoted (Chart d) @ '' (version ''
                           @ quoted (Version d) @ '') after repo update: '' @ e2)"
    unfolding r1 by auto
  let ?sync = "events_since s1 (snd (UpdateRepos hc [d] s1))"
  have k: "filter is_LocateChart ?sync = []" "filter is_InstallRun ?sync = []"
      "filter (\<lambda>x. x = MuLock) ?sync = [MuLock]"
    using UpdateRepos_events_kinds [of s1 hc "[d]"] by simp_all
  have pk: "filter is_LocateChart post = []" "filter (\<lambda>x. x = MuLock) post = []"
  proof -
    show "filter is_LocateChart post = []"
      using p by (cases r2) (simp_all add: load_events_kinds(1))
    show "filter (\<lambda>x. x = MuLock) post = []"
      using p by (cases r2) (simp_all add: load_events_kinds(2))
  qed
  have E: "?E = [HistoryRun 1 rn, LocateChart (Version d) (Chart d) (Some e)]
         @ ?sync @ LocateChart (Version d) (Chart d) r2 # post"
    unfolding es r r1 by simp
  have n2: "length (filter is_LocateChart ?E) = 2"
    unfolding E by (simp add: k pk is_LocateChart_def)
  have n1: "length (filter (\<lambda>x. x = MuLock) ?E) = 1"
    unfolding E by (simp add: k pk)
  have f: "\<forall>e2. r2 = Some e2 \<longrightarrow>
           post = [] \<and> filter is_InstallRun ?E = []
           \<and> fst (InstallChart hc d rn0 v s) =
               Inl (''could not locate chart '' @ quoted (Chart d) @ '' (version ''
                    @ quoted (Version d) @ '') after repo update: '' @ e2)"
  proof (intro allI impI)
    fix e2 assume r2: "r2 = Some e2"
    with p have p0: "post = []" and res: "fst (InstallChart_locate hc d rn v s0) =
                      Inl (''could not locate chart '' @ quoted (Chart d) @ '' (version ''
                           @ quoted (Version d) @ '') after repo update: '' @ e2)"
      by simp_all
    have "filter is_InstallRun ?E = []"
      unfolding E p0 by (simp add: k is_InstallRun_def)
    with p0 res show "post = [] \<and> filter is_InstallRun ?E = []
           \<and> fst (InstallChart hc d rn0 v s) =
               Inl (''could not locate chart '' @ quoted (Chart d) @ '' (version ''
                    @ quoted (Version d) @ '') after repo update: '' @ e2)"
      unfolding eq by simp
  qed
  from t1 E n2 n1 f show ?thesis by blast
qed

theorem InstallChart_retries_location_once_witness:
  "find is_LocateChart
     (events_since (start (sim_empty\<lparr>sim_bad_urls := [''https://charts.bitnami.com/bitnami'']\<rparr>))
        (snd (InstallChart sim_client nginx [] ()
               (start (sim_empty\<lparr>sim_bad_urls := [''https://charts.bitnami.com/bitnami'']\<rparr>)))))
     = Some (LocateChart ''15.0.0'' ''bitnami/nginx'' (Some ''no cached repo found''))
   \<and> length (filter is_LocateChart
        (events_since (start (sim_empty\<lparr>sim_bad_urls := [''https://charts.bitnami.com/bitnami'']\<rparr>))
           (snd (InstallChart sim_client nginx [] ()
                  (start (sim_empty\<lparr>sim_bad_urls := [''https://charts.bitnami.com/bitnami'']\<rparr>)))))) = 2
   \<and> length (filter (\<lambda>x. x = MuLock)
        (events_since (start (sim_empty\<lparr>sim_bad_urls := [''https://charts.bitnami.com/bitnami'']\<rparr>))
           (snd (InstallChart sim_client nginx [] ()
                  (start (sim_empty\<lparr>sim_bad_urls := [''https://charts.bitnami.com/bitnami'']\<rparr>)))))) = 1
   \<and> fst (InstallChart sim_client nginx [] ()
              (start (sim_empty\<lparr>sim_bad_urls := [''https://charts.bitnami.com/bitnami'']\<rparr>)))
       = Inl (''could not locate chart '' @ quoted ''bitnami/nginx'' @ '' (version '' @ quoted ''15.0.0''
              @ '') after repo update: no cached repo found'')
   \<and> find is_LocateChart
        (events_since (start sim_empty) (snd (InstallChart sim_client nginx [] () (start sim_empty))))
       = Some (LocateChart ''15.0.0'' ''bitnami/nginx'' (Some ''no cached repo found''))
   \<and> length (filter is_LocateChart
        (events_since (start sim_empty) (snd (InstallChart sim_client nginx [] () (start sim_empty))))) = 2
   \<and> fst (InstallChart sim_client nginx [] () (start sim_empty)) = Inr ''nginx''"
proof -
  let ?bad = "start (sim_empty\<lparr>sim_bad_urls := [''https://charts.bitnami.com/bitnami'']\<rparr>)"
  have rn: "''nginx'' = (if ([]::string) = [] then Name nginx else [])"
    by (simp add: nginx_def)
  have f1: "find is_LocateChart (events_since ?bad (snd (InstallChart sim_client nginx [] () ?bad)))
     = Some (LocateChart ''15.0.0'' ''bitnami/nginx'' (Some ''no cached repo found''))"
    by (simp add: sim_install_unlocatable events_since_def trace_start is_LocateChart_def)
  have f2: "find is_LocateChart
        (events_since (start sim_empty) (snd (InstallChart sim_client nginx [] () (start sim_empty))))
       = Some (LocateChart ''15.0.0'' ''bitnami/nginx'' (Some ''no cached repo found''))"
    by (simp add: sim_install_fresh events_since_def trace_start is_LocateChart_def)
  from InstallChart_retries_location_once [OF rn f1]
  have a: "length (filter is_LocateChart (events_since ?bad (snd (InstallChart sim_client nginx [] () ?bad)))) = 2"
    and b: "length (filter (\<lambda>x. x = MuLock) (events_since ?bad (snd (InstallChart sim_client nginx [] () ?bad)))) = 1"
    by blast+
  from InstallChart_retries_location_once [OF rn f2]
  have c: "length (filter is_LocateChart
        (events_since (start sim_empty) (snd (InstallChart sim_client nginx [] () (start sim_empty))))) = 2"
    by blast
  have d: "fst (InstallChart sim_client nginx [] () ?bad)
       = Inl (''could not locate chart '' @ quoted ''bitnami/nginx'' @ '' (version '' @ quoted ''15.0.0''
              @ '') after repo update: no cached repo found'')"
    by (simp add: sim_install_unlocatable)
  have e: "fst (InstallChart sim_client nginx [] () (start sim_empty)) = Inr ''nginx''"
    by (simp add: sim_install_fresh)
  from f1 a b d f2 c e show ?thesis by blast
qed

section \<open>Claims about the uninstallation\<close>

lemma not_found_message_Contains:
  "strings_Contains (''release '' @ quoted n @ '' not found in namespace '' @ quoted ns) ''not found''"
proof -
  have "''release '' @ quoted n @ '' not found in namespace '' @ quoted ns
          = (''release '' @ quoted n @ '' '') @ ''not found'' @ ('' in namespace '' @ quoted ns)"
    by simp
  then show ?thesis
    unfolding strings_Contains_def by (metis sublist_appendI)
qed

lemma UninstallRelease_unfold:
  assumes "uninstall_Run hc (config_HelmTimeout hc) n (world s) = (res, w1)"
  shows "UninstallRelease hc n s =
     ((case res of
         Inl err \<Rightarrow>
           if strings_Contains err ''release: not found''
           then Inl (''release '' @ quoted n @ '' not found in namespace '' @ quoted (config_AppInstallNamespace hc))
           else Inl (''failed to uninstall release '' @ quoted n @ '': '' @ err)
       | Inr r \<Rightarrow> Inr r),
      emit (UninstallRun (config_HelmTimeout hc) n) w1 s)"
  using assms by (simp add: UninstallRelease_def split: sum.splits)

lemma sim_uninstall_runs:
  "uninstall_Run sim_client (config_HelmTimeout sim_client) ''demo'' (sim_empty\<lparr>sim_releases := [''demo'']\<rparr>)
     = (Inr ''demo'', sim_empty)"
  "uninstall_Run sim_client (config_HelmTimeout sim_client) ''demo'' sim_empty
     = (Inl ''uninstall: Release not loaded: demo: release: not found'', sim_empty)"
  "uninstall_Run sim_client (config_HelmTimeout sim_client) ''demo'' (sim_empty\<lparr>sim_fault := ''Kubernetes cluster unreachable''\<rparr>)
     = (Inl ''Kubernetes cluster unreachable'', sim_empty\<lparr>sim_fault := ''Kubernetes cluster unreachable''\<rparr>)"
  "uninstall_Run sim_client (config_HelmTimeout sim_client) ''demo'' (sim_empty\<lparr>sim_fault := ''namespaces apps not found''\<rparr>)
     = (Inl ''namespaces apps not found'', sim_empty\<lparr>sim_fault := ''namespaces apps not found''\<rparr>)"
  by (simp_all add: sim_client_def sim_uninstall_def sim_empty_def)

lemma Contains_examples:
  "strings_Contains ''uninstall: Release not loaded: demo: release: not found'' ''release: not found''"
  "\<not> strings_Contains ''Kubernetes cluster unreachable'' ''release: not found''"
  "\<not> strings_Contains ''namespaces apps not found'' ''release: not found''"
  "\<not> strings_Contains (''failed to uninstall release '' @ quoted ''demo'' @ '': Kubernetes cluster unreachable'') ''not found''"
  "strings_Contains (''failed to uninstall release '' @ quoted ''demo'' @ '': namespaces apps not found'') ''not found''"
  by (simp_all add: strings_Contains_def sublist_code(3) quoted_def)

text \<open>
  Claim C8, as the code has it. A backend error whose message contains
  ``release: not found'' makes \<^verbatim>\<open>UninstallRelease\<close> return the distinct error
  ``release ... not found in namespace ...'', which the handler answers with 404. Every
  other backend error is returned as ``failed to uninstall release ...: '' followed by
  the backend message; the handler answers it with 500 unless that text contains
  ``not found'', and with 404 when it does. On success the handler answers 200.
\<close>

theorem UninstallRelease_classifies:
  assumes run: "uninstall_Run hc (config_HelmTimeout hc) n (world s) = (res, w1)"
  shows "(\<forall>r. res = Inr r \<longrightarrow>
            fst (UninstallRelease hc n s) = Inr r
            \<and> status (fst (UninstallReleaseHandler hc n s)) = 200)
       \<and> (\<forall>err. res = Inl err \<and> strings_Contains err ''release: not found'' \<longrightarrow>
            fst (UninstallRelease hc n s) =
              Inl (''release '' @ quoted n @ '' not found in namespace ''
                   @ quoted (config_AppInstallNamespace hc))
            \<and> status (fst (UninstallReleaseHandler hc n s)) = 404)
       \<and> (\<forall>err. res = Inl err \<and> \<not> strings_Contains err ''release: not found'' \<longrightarrow>
            fst (UninstallRelease hc n s) = Inl (''failed to uninstall release '' @ quoted n @ '': '' @ err)
            \<and> status (fst (UninstallReleaseHandler hc n s)) =
                (if strings_Contains (''failed to uninstall release '' @ quoted n @ '': '' @ err) ''not found''
                 then 404 else 500))"
proof (intro conjI allI impI)
  fix r assume "res = Inr r"
  then have u: "UninstallRelease hc n s = (Inr r, emit (UninstallRun (config_HelmTimeout hc) n) w1 s)"
    using UninstallRelease_unfold [OF run] by simp
  show "fst (UninstallRelease hc n s) = Inr r" unfolding u by simp
  show "status (fst (UninstallReleaseHandler hc n s)) = 200"
    unfolding UninstallReleaseHandler_def u by (simp add: http_StatusOK_def)
next
  fix err assume "res = Inl err \<and> strings_Contains err ''release: not found''"
  then have u: "UninstallRelease hc n s =
      (Inl (''release '' @ quoted n @ '' not found in namespace '' @ quoted (config_AppInstallNamespace hc)),
       emit (UninstallRun (config_HelmTimeout hc) n) w1 s)"
    using UninstallRelease_unfold [OF run] by simp
  show "fst (UninstallRelease hc n s) =
              Inl (''release '' @ quoted n @ '' not found in namespace ''
                   @ quoted (config_AppInstallNamespace hc))"
    unfolding u by simp
  show "status (fst (UninstallReleaseHandler hc n s)) = 404"
    unfolding UninstallReleaseHandler_def u
    using not_found_message_Contains [of n "config_AppInstallNamespace hc"]
    by (simp add: http_StatusNotFound_def)
next
  fix err assume "res = Inl err \<and> \<not> strings_Contains err ''release: not found''"
  then have u: "UninstallRelease hc n s =
      (Inl (''failed to uninstall release '' @ quoted n @ '': '' @ err),
       emit (UninstallRun (config_HelmTimeout hc) n) w1 s)"
    using UninstallRelease_unfold [OF run] by simp
  show "fst (UninstallRelease hc n s) = Inl (''failed to uninstall release '' @ quoted n @ '': '' @ err)"
    unfolding u by simp
  show "status (fst (UninstallReleaseHandler hc n s)) =
                (if strings_Contains (''failed to uninstall release '' @ quoted n @ '': '' @ err) ''not found''
                 then 404 else 500)"
    unfolding UninstallReleaseHandler_def u
    by (simp add: http_StatusNotFound_def http_StatusInternalServerError_def)
qed

theorem UninstallRelease_classifies_witness:
  "fst (UninstallRelease sim_client ''demo'' (start (sim_empty\<lparr>sim_releases := [''demo'']\<rparr>))) = Inr ''demo''
   \<and> status (fst (UninstallReleaseHandler sim_client ''demo'' (start (sim_empty\<lparr>sim_releases := [''demo'']\<rparr>)))) = 200
   \<and> fst (UninstallRelease sim_client ''demo'' (start sim_empty))
       = Inl (''release '' @ quoted ''demo'' @ '' not found in namespace '' @ quoted ''apps'')
   \<and> status (fst (UninstallReleaseHandler sim_client ''demo'' (start sim_empty))) = 404
   \<and> fst (UninstallRelease sim_client ''demo'' (start (sim_empty\<lparr>sim_fault := ''Kubernetes cluster unreachable''\<rparr>)))
       = Inl (''failed to uninstall release '' @ quoted ''demo'' @ '': Kubernetes cluster unreachable'')
   \<and> status (fst (UninstallReleaseHandler sim_client ''demo''
                    (start (sim_empty\<lparr>sim_fault := ''Kubernetes cluster unreachable''\<rparr>)))) = 500"
proof -
  have ns: "config_AppInstallNamespace sim_client = ''apps''"
    by (simp add: sim_client_def)
  have r1: "uninstall_Run sim_client (config_HelmTimeout sim_client) ''demo''
              (world (start (sim_empty\<lparr>sim_releases := [''demo'']\<rparr>))) = (Inr ''demo'', sim_empty)"
    unfolding world_start by (rule sim_uninstall_runs(1))
  have r2: "uninstall_Run sim_client (config_HelmTimeout sim_client) ''demo'' (world (start sim_empty))
              = (Inl ''uninstall: Release not loaded: demo: release: not found'', sim_empty)"
    unfolding world_start by (rule sim_uninstall_runs(2))
  have r3: "uninstall_Run sim_client (config_HelmTimeout sim_client) ''demo''
              (world (start (sim_empty\<lparr>sim_fault := ''Kubernetes cluster unreachable''\<rparr>)))
              = (Inl ''Kubernetes cluster unreachable'', sim_empty\<lparr>sim_fault := ''Kubernetes cluster unreachable''\<rparr>)"
    unfolding world_start by (rule sim_uninstall_runs(3))
  have a: "fst (UninstallRelease sim_client ''demo'' (start (sim_empty\<lparr>sim_releases := [''demo'']\<rparr>))) = Inr ''demo''
     \<and> status (fst (UninstallReleaseHandler sim_client ''demo'' (start (sim_empty\<lparr>sim_releases := [''demo'']\<rparr>)))) = 200"
    using UninstallRelease_classifies [OF r1] by simp
  have b: "fst (UninstallRelease sim_client ''demo'' (start sim_empty))
       = Inl (''release '' @ quoted ''demo'' @ '' not found in namespace '' @ quoted ''apps'')
     \<and> status (fst (UninstallReleaseHandler sim_client ''demo'' (start sim_empty))) = 404"
    using UninstallRelease_classifies [OF r2] Contains_examples(1) unfolding ns by simp
  have c: "fst (UninstallRelease sim_client ''demo'' (start (sim_empty\<lparr>sim_fault := ''Kubernetes cluster unreachable''\<rparr>)))
       = Inl (''failed to uninstall release '' @ quoted ''demo'' @ '': Kubernetes cluster unreachable'')
     \<and> status (fst (UninstallReleaseHandler sim_client ''demo''
                    (start (sim_empty\<lparr>sim_fault := ''Kubernetes cluster unreachable''\<rparr>)))) = 500"
    using UninstallRelease_classifies [OF r3] Contains_examples(2) Contains_examples(4) by simp
  from a b c show ?thesis by blast
qed

text \<open>
  Claim C8 as the specification states it, that every backend error other than
  ``release: not found'' is mapped to 500, is false: the handler looks for ``not found''
  in the whole message, which embeds the backend message. A backend error
  ``namespaces apps not found'' is returned as a generic failure and answered with 404.
\<close>

theorem UninstallRelease_other_error_counterexample:
  "fst (uninstall_Run sim_client (config_HelmTimeout sim_client) ''demo''
          (world (start (sim_empty\<lparr>sim_fault := ''namespaces apps not found''\<rparr>))))
     = Inl ''namespaces apps not found''
   \<and> \<not> strings_Contains ''namespaces apps not found'' ''release: not found''
   \<and> fst (UninstallRelease sim_client ''demo'' (start (sim_empty\<lparr>sim_fault := ''namespaces apps not found''\<rparr>)))
       = Inl (''failed to uninstall release '' @ quoted ''demo'' @ '': namespaces apps not found'')
   \<and> status (fst (UninstallReleaseHandler sim_client ''demo''
                    (start (sim_empty\<lparr>sim_fault := ''namespaces apps not found''\<rparr>)))) = 404"
proof -
  let ?S = "start (sim_empty\<lparr>sim_fault := ''namespaces apps not found''\<rparr>)"
  have r: "uninstall_Run sim_client (config_HelmTimeout sim_client) ''demo'' (world ?S)
              = (Inl ''namespaces apps not found'', sim_empty\<lparr>sim_fault := ''namespaces apps not found''\<rparr>)"
    unfolding world_start by (rule sim_uninstall_runs(4))
  have u: "UninstallRelease sim_client ''demo'' ?S =
      (Inl (''failed to uninstall release '' @ quoted ''demo'' @ '': namespaces apps not found''),
       emit (UninstallRun (config_HelmTimeout sim_client) ''demo'')
         (sim_empty\<lparr>sim_fault := ''namespaces apps not found''\<rparr>) ?S)"
    using UninstallRelease_unfold [OF r] Contains_examples(3) by simp
  have h: "status (fst (UninstallReleaseHandler sim_client ''demo'' ?S)) = 404"
    unfolding UninstallReleaseHandler_def u using Contains_examples(5)
    by (simp add: http_StatusNotFound_def)
  from r u h Contains_examples(3) show ?thesis by simp
qed

section \<open>Claims about the node ports of a release\<close>

lemma ports_loop_lookup:
  "Mapping.lookup (ports_loop ports m) k =
     (case map_of (rev (map (\<lambda>p. (port_key p, Port_NodePort p)) (filter (\<lambda>p. 0 <s Port_NodePort p) ports))) k of
        Some v \<Rightarrow> Some v
      | None \<Rightarrow> Mapping.lookup m k)"
proof (induction ports arbitrary: m)
  case Nil
  show ?case by simp
next
  case (Cons p ps)
  show ?case
  proof (cases "0 <s Port_NodePort p")
    case True
    then have "ports_loop (p # ps) m = ports_loop ps (Mapping.update (port_key p) (Port_NodePort p) m)"
      by (simp add: port_key_def)
    then show ?thesis
      using True by (simp add: Cons.IH map_add_def Mapping.lookup_update' split: option.splits)
  next
    case False
    then show ?thesis by (simp add: Cons.IH)
  qed
qed

lemma ports_loop_entries: "ports_loop (Spec_Ports svc) Mapping.empty = service_entries svc"
  by (rule mapping_eqI)
     (simp add: ports_loop_lookup service_entries_def lookup_of_alist split: option.splits)

lemma is_empty_iff: "Mapping.is_empty m \<longleftrightarrow> m = Mapping.empty"
  by (auto simp: Mapping.is_empty_def keys_dom_lookup intro!: mapping_eqI)

lemma service_entries_empty:
  "Mapping.is_empty (service_entries svc) \<longleftrightarrow> filter (\<lambda>p. 0 <s Port_NodePort p) (Spec_Ports svc) = []"
  by (auto simp: Mapping.is_empty_def service_entries_def filter_empty_conv)

lemma services_loop_first:
  "services_loop items Mapping.empty = first_exposing_entries items"
proof (induction items)
  case Nil
  show ?case by (simp add: first_exposing_entries_def)
next
  case (Cons svc rest)
  show ?case
  proof (cases "exposing svc")
    case True
    then show ?thesis
      by (simp add: first_exposing_entries_def exposing_def ports_loop_entries service_entries_empty)
  next
    case False
    then have "services_loop (svc # rest) Mapping.empty = services_loop rest Mapping.empty"
      using service_entries_empty [of svc]
      by (auto simp: exposing_def ports_loop_entries Let_def is_empty_iff)
    then show ?thesis
      using False Cons.IH by (simp add: first_exposing_entries_def)
  qed
qed

lemma find_first:
  "\<forall>x\<in>set pre. \<not> P x \<Longrightarrow> P y \<Longrightarrow> find P (pre @ y # post) = Some y"
  by (induction pre) auto

lemma find_none: "\<forall>x\<in>set xs. \<not> P x \<Longrightarrow> find P xs = None"
  by (induction xs) auto

lemma service_entries_keys:
  "Mapping.keys (service_entries svc) =
     port_key ` {p \<in> set (Spec_Ports svc). 0 <s Port_NodePort p}"
  by (force simp: service_entries_def)

lemma service_entries_lookup:
  assumes "Mapping.lookup (service_entries svc) k = Some v"
  shows "\<exists>p\<in>set (Spec_Ports svc). 0 <s Port_NodePort p \<and> port_key p = k \<and> Port_NodePort p = v"
proof -
  from assms have "(k, v) \<in> set (rev (map (\<lambda>p. (port_key p, Port_NodePort p))
                      (filter (\<lambda>p. 0 <s Port_NodePort p) (Spec_Ports svc))))"
    unfolding service_entries_def lookup_of_alist by (rule map_of_SomeD)
  then show ?thesis by auto
qed

lemma Sprintf_d_443: "Sprintf_d 443 = ''443''"
  by (simp add: Sprintf_d_def)

lemma demo_exposing:
  "\<not> exposing (demo_services ! 0)" "exposing (demo_services ! 1)" "exposing (demo_services ! 2)"
  by (simp_all add: demo_services_def exposing_def word_sless_alt)

lemma demo_entries:
  "Mapping.lookup (service_entries (demo_services ! 1)) ''http'' = Some 30080"
  "Mapping.lookup (service_entries (demo_services ! 1)) ''443'' = Some 30443"
  "Mapping.lookup (service_entries (demo_services ! 1)) ''admin'' = None"
  "Mapping.lookup (service_entries (demo_services ! 1)) ''grpc'' = None"
  "Mapping.lookup (service_entries (demo_services ! 2)) ''grpc'' = Some 31000"
  by (simp_all add: demo_services_def service_entries_def lookup_of_alist port_key_def Sprintf_d_443
      word_sless_alt)

text \<open>
  Claim C7: \<^verbatim>\<open>getReleaseNodePorts\<close> lists the Services that carry the instance label of
  the release and returns the entries of the first one that is of type NodePort or
  LoadBalancer and has a port with a positive node port: each such port under its name,
  or under its port number in decimal when it has no name. The Services after that one
  add nothing to the map, and the map is empty when no Service qualifies.
\<close>

theorem getReleaseNodePorts_first_exposing_service:
  assumes list: "services_List hc ns (''app.kubernetes.io/instance='' @ rn) (world s) = (Inr items, w1)"
  shows "fst (getReleaseNodePorts hc rn ns s) = first_exposing_entries items
       \<and> (\<forall>pre svc post. items = pre @ svc # post \<and> (\<forall>x\<in>set pre. \<not> exposing x) \<and> exposing svc \<longrightarrow>
            fst (getReleaseNodePorts hc rn ns s) = service_entries svc
            \<and> \<not> Mapping.is_empty (service_entries svc))
       \<and> ((\<forall>x\<in>set items. \<not> exposing x) \<longrightarrow> fst (getReleaseNodePorts hc rn ns s) = Mapping.empty)"
proof -
  have r: "fst (getReleaseNodePorts hc rn ns s) = first_exposing_entries items"
    using list by (simp add: getReleaseNodePorts_def services_loop_first)
  have a: "\<forall>pre svc post. items = pre @ svc # post \<and> (\<forall>x\<in>set pre. \<not> exposing x) \<and> exposing svc \<longrightarrow>
            first_exposing_entries items = service_entries svc
            \<and> \<not> Mapping.is_empty (service_entries svc)"
    by (auto simp: first_exposing_entries_def find_first service_entries_empty exposing_def)
  have b: "(\<forall>x\<in>set items. \<not> exposing x) \<longrightarrow> first_exposing_entries items = Mapping.empty"
    by (simp add: first_exposing_entries_def find_none)
  from a b show ?thesis unfolding r by blast
qed

theorem getReleaseNodePorts_first_exposing_service_witness:
  "services_List sim_client ''apps'' (''app.kubernetes.io/instance='' @ ''demo'')
       (world (start (sim_empty\<lparr>sim_services := demo_services\<rparr>)))
     = (Inr demo_services, sim_empty\<lparr>sim_services := demo_services\<rparr>)
   \<and> demo_services = [demo_services ! 0] @ demo_services ! 1 # [demo_services ! 2]
   \<and> \<not> exposing (demo_services ! 0) \<and> exposing (demo_services ! 1) \<and> exposing (demo_services ! 2)
   \<and> fst (getReleaseNodePorts sim_client ''demo'' ''apps'' (start (sim_empty\<lparr>sim_services := demo_services\<rparr>)))
       = service_entries (demo_services ! 1)
   \<and> Mapping.lookup (fst (getReleaseNodePorts sim_client ''demo'' ''apps''
                             (start (sim_empty\<lparr>sim_services := demo_services\<rparr>)))) ''http'' = Some 30080
   \<and> Mapping.lookup (fst (getReleaseNodePorts sim_client ''demo'' ''apps''
                             (start (sim_empty\<lparr>sim_services := demo_services\<rparr>)))) ''443'' = Some 30443
   \<and> Mapping.lookup (fst (getReleaseNodePorts sim_client ''demo'' ''apps''
                             (start (sim_empty\<lparr>sim_services := demo_services\<rparr>)))) ''grpc'' = None
   \<and> Mapping.lookup (service_entries (demo_services ! 2)) ''grpc'' = Some 31000"
proof -
  let ?S = "start (sim_empty\<lparr>sim_services := demo_services\<rparr>)"
  have l: "services_List sim_client ''apps'' (''app.kubernetes.io/instance='' @ ''demo'') (world ?S)
     = (Inr demo_services, sim_empty\<lparr>sim_services := demo_services\<rparr>)"
    by (simp add: sim_client_def world_start)
  have sp: "demo_services = [demo_services ! 0] @ demo_services ! 1 # [demo_services ! 2]"
    by (simp add: demo_services_def)
  have pre: "\<forall>x\<in>set [demo_services ! 0]. \<not> exposing x"
    using demo_exposing(1) by simp
  from getReleaseNodePorts_first_exposing_service [OF l] sp pre demo_exposing(2)
  have r: "fst (getReleaseNodePorts sim_client ''demo'' ''apps'' ?S) = service_entries (demo_services ! 1)"
    by blast
  show ?thesis
    using l sp demo_exposing demo_entries unfolding r by blast
qed

section \<open>Claims about the metrics snapshot\<close>

lemma nodes_loop_eq:
  "nodes_loop L nms nodes t =
     \<lparr>detailedNodeMetrics = detailedNodeMetrics t @ map (node_entry L nms) nodes,
      totalCPUUsageMilliCores =
        totalCPUUsageMilliCores t + sum_list (map (\<lambda>n. CPUUsageMilliCores (node_entry L nms n)) nodes),
      totalCPUCapacityMilliCores =
        totalCPUCapacityMilliCores t + sum_list (map (\<lambda>n. CPUAvailableMilliCores (node_entry L nms n)) nodes),
      totalMemUsageBytes =
        totalMemUsageBytes t + sum_list (map (\<lambda>n. MemoryUsageBytes (node_entry L nms n)) nodes),
      totalMemCapacityBytes =
        totalMemCapacityBytes t + sum_list (map (\<lambda>n. MemoryAvailableBytes (node_entry L nms n)) nodes)\<rparr>"
proof (induction nodes arbitrary: t)
  case Nil
  show ?case by simp
next
  case (Cons n nodes)
  show ?case
    by (simp add: Cons.IH node_entry_def node_usage_def Let_def add.assoc split: prod.splits option.splits)
qed

lemma find_metrics_None: "name \<notin> Item_Name ` set nms \<Longrightarrow> find_metrics L nms name = None"
  by (induction nms) auto

lemma GetClusterMetricsSnapshot_eq:
  assumes "metricsClient_NodeMetricses_List svc = Some (Inr nms)" and "kubeClient_Nodes_List svc = Inr nodes"
  shows "GetClusterMetricsSnapshot L svc =
     Inr \<lparr>TotalCPUUsageMilliCores = sum_list (map (\<lambda>n. CPUUsageMilliCores (node_entry L nms n)) nodes),
          TotalCPUCapacityMilliCores = sum_list (map (\<lambda>n. CPUAvailableMilliCores (node_entry L nms n)) nodes),
          TotalMemoryUsageBytes = sum_list (map (\<lambda>n. MemoryUsageBytes (node_entry L nms n)) nodes),
          TotalMemoryCapacityBytes = sum_list (map (\<lambda>n. MemoryAvailableBytes (node_entry L nms n)) nodes),
          AverageCPUUsagePercentage =
            percent L (sum_list (map (\<lambda>n. CPUUsageMilliCores (node_entry L nms n)) nodes))
                      (sum_list (map (\<lambda>n. CPUAvailableMilliCores (node_entry L nms n)) nodes)),
          AverageMemUsagePercentage =
            percent L (sum_list (map (\<lambda>n. MemoryUsageBytes (node_entry L nms n)) nodes))
                      (sum_list (map (\<lambda>n. MemoryAvailableBytes (node_entry L nms n)) nodes)),
          Nodes = map (node_entry L nms) nodes\<rparr>"
  using assms by (simp add: GetClusterMetricsSnapshot_def nodes_loop_eq Let_def)


lemma node_entry_missing:
  assumes "Node_Name n \<notin> Item_Name ` set nms"
  shows "CPUUsageMilliCores (node_entry L nms n) = Quantity_MilliValue L (resource_NewMilliQuantity L 0 DecimalSI)"
    and "MemoryUsageBytes (node_entry L nms n) = Quantity_Value L (resource_NewQuantity L 0 BinarySI)"
  using find_metrics_None [OF assms, of L] by (simp_all add: node_entry_def node_usage_def)

lemma node_entry_percentages:
  "CPUUsagePercentage (node_entry L nms n) =
     percent L (CPUUsageMilliCores (node_entry L nms n)) (CPUAvailableMilliCores (node_entry L nms n))"
  "MemUsagePercentage (node_entry L nms n) =
     percent L (MemoryUsageBytes (node_entry L nms n)) (MemoryAvailableBytes (node_entry L nms n))"
  by (simp_all add: node_entry_def)

lemma percent_zero_capacity: "percent L usage 0 = float64_zero L"
  by (simp add: percent_def)

lemma demo_snapshot:
  "GetClusterMetricsSnapshot demo_lib demo_service =
     Inr \<lparr>TotalCPUUsageMilliCores = 250, TotalCPUCapacityMilliCores = 1000,
          TotalMemoryUsageBytes = 1024, TotalMemoryCapacityBytes = 6144,
          AverageCPUUsagePercentage = 25, AverageMemUsagePercentage = 50 / 3,
          Nodes =
            [\<lparr>NodeName = ''node-a'', CPUUsageMilliCores = 250, MemoryUsageBytes = 1024,
               CPUAvailableMilliCores = 1000, MemoryAvailableBytes = 4096,
               CPUUsagePercentage = 25, MemUsagePercentage = 25\<rparr>,
             \<lparr>NodeName = ''node-b'', CPUUsageMilliCores = 0, MemoryUsageBytes = 0,
               CPUAvailableMilliCores = 0, MemoryAvailableBytes = 2048,
               CPUUsagePercentage = 0, MemUsagePercentage = 0\<rparr>]\<rparr>"
  by (simp add: GetClusterMetricsSnapshot_def demo_service_def demo_nodes_def demo_metrics_def demo_lib_def
      Let_def percent_def Mapping.lookup_default_def lookup_of_alist word_sless_alt)

lemma demo_snapshot_no_capacity:
  "GetClusterMetricsSnapshot demo_lib demo_service_no_capacity =
     Inr \<lparr>TotalCPUUsageMilliCores = 100, TotalCPUCapacityMilliCores = 0,
          TotalMemoryUsageBytes = 5000, TotalMemoryCapacityBytes = 0,
          AverageCPUUsagePercentage = 0, AverageMemUsagePercentage = 0,
          Nodes =
            [\<lparr>NodeName = ''node-c'', CPUUsageMilliCores = 100, MemoryUsageBytes = 5000,
               CPUAvailableMilliCores = 0, MemoryAvailableBytes = 0,
               CPUUsagePercentage = 0, MemUsagePercentage = 0\<rparr>]\<rparr>"
  by (simp add: GetClusterMetricsSnapshot_def demo_service_no_capacity_def demo_lib_def
      Let_def percent_def Mapping.lookup_default_def lookup_of_alist word_sless_alt)

text \<open>
  Claim C5: when both lists are fetched and a node of the node list has no entry of its
  name in the metrics list, the snapshot is returned; the node has its entry in the
  per-node list, at its place, with CPU and memory usage zero (the values of the zero
  quantities that the code builds) and with its allocatable capacity; and each
  cluster-wide total is the sum of that field over all the entries of the per-node
  list, this one included.
\<close>

theorem missing_metrics_counted_as_zero:
  assumes metrics: "metricsClient_NodeMetricses_List svc = Some (Inr nms)"
    and nodes: "kubeClient_Nodes_List svc = Inr nodes"
    and zero_milli: "Quantity_MilliValue L (resource_NewMilliQuantity L 0 DecimalSI) = 0"
    and zero_value: "Quantity_Value L (resource_NewQuantity L 0 BinarySI) = 0"
    and i: "i < length nodes"
    and missing: "Node_Name (nodes ! i) \<notin> Item_Name ` set nms"
  shows "\<exists>cm. GetClusterMetricsSnapshot L svc = Inr cm
     \<and> length (Nodes cm) = length nodes
     \<and> NodeName (Nodes cm ! i) = Node_Name (nodes ! i)
     \<and> CPUUsageMilliCores (Nodes cm ! i) = 0
     \<and> MemoryUsageBytes (Nodes cm ! i) = 0
     \<and> CPUAvailableMilliCores (Nodes cm ! i) =
         Quantity_MilliValue L (Mapping.lookup_default (Quantity_zero L) (Status_Allocatable (nodes ! i)) ''cpu'')
     \<and> MemoryAvailableBytes (Nodes cm ! i) =
         Quantity_Value L (Mapping.lookup_default (Quantity_zero L) (Status_Allocatable (nodes ! i)) ''memory'')
     \<and> TotalCPUUsageMilliCores cm = sum_list (map CPUUsageMilliCores (Nodes cm))
     \<and> TotalCPUCapacityMilliCores cm = sum_list (map CPUAvailableMilliCores (Nodes cm))
     \<and> TotalMemoryUsageBytes cm = sum_list (map MemoryUsageBytes (Nodes cm))
     \<and> TotalMemoryCapacityBytes cm = sum_list (map MemoryAvailableBytes (Nodes cm))"
proof -
  note eq = GetClusterMetricsSnapshot_eq [OF metrics nodes, of L]
  have u: "CPUUsageMilliCores (node_entry L nms (nodes ! i)) = 0"
      "MemoryUsageBytes (node_entry L nms (nodes ! i)) = 0"
    using node_entry_missing [OF missing, of L] zero_milli zero_value by simp_all
  have a: "NodeName (node_entry L nms (nodes ! i)) = Node_Name (nodes ! i)"
      "CPUAvailableMilliCores (node_entry L nms (nodes ! i)) =
         Quantity_MilliValue L (Mapping.lookup_default (Quantity_zero L) (Status_Allocatable (nodes ! i)) ''cpu'')"
      "MemoryAvailableBytes (node_entry L nms (nodes ! i)) =
         Quantity_Value L (Mapping.lookup_default (Quantity_zero L) (Status_Allocatable (nodes ! i)) ''memory'')"
    by (simp_all add: node_entry_def)
  show ?thesis
    unfolding eq using i u a by (simp add: comp_def)
qed

theorem missing_metrics_counted_as_zero_witness:
  "metricsClient_NodeMetricses_List demo_service = Some (Inr demo_metrics)
   \<and> kubeClient_Nodes_List demo_service = Inr demo_nodes
   \<and> Quantity_MilliValue demo_lib (resource_NewMilliQuantity demo_lib 0 DecimalSI) = 0
   \<and> Quantity_Value demo_lib (resource_NewQuantity demo_lib 0 BinarySI) = 0
   \<and> (1::nat) < length demo_nodes
   \<and> Node_Name (demo_nodes ! 1) \<notin> Item_Name ` set demo_metrics
   \<and> (\<exists>cm. GetClusterMetricsSnapshot demo_lib demo_service = Inr cm
        \<and> length (Nodes cm) = 2
        \<and> NodeName (Nodes cm ! 1) = ''node-b''
        \<and> CPUUsageMilliCores (Nodes cm ! 1) = 0 \<and> MemoryUsageBytes (Nodes cm ! 1) = 0
        \<and> MemoryAvailableBytes (Nodes cm ! 1) = 2048
        \<and> TotalCPUUsageMilliCores cm = 250 \<and> TotalMemoryCapacityBytes cm = 6144)"
proof -
  have m: "metricsClient_NodeMetricses_List demo_service = Some (Inr demo_metrics)"
    and n: "kubeClient_Nodes_List demo_service = Inr demo_nodes"
    by (simp_all add: demo_service_def)
  have zm: "Quantity_MilliValue demo_lib (resource_NewMilliQuantity demo_lib 0 DecimalSI) = 0"
    and zv: "Quantity_Value demo_lib (resource_NewQuantity demo_lib 0 BinarySI) = 0"
    by (simp_all add: demo_lib_def)
  have i: "(1::nat) < length demo_nodes"
    by (simp add: demo_nodes_def)
  have mi: "Node_Name (demo_nodes ! 1) \<notin> Item_Name ` set demo_metrics"
    by (simp add: demo_nodes_def demo_metrics_def)
  from missing_metrics_counted_as_zero [OF m n zm zv i mi]
  obtain cm where cm: "GetClusterMetricsSnapshot demo_lib demo_service = Inr cm"
    and z: "CPUUsageMilliCores (Nodes cm ! 1) = 0" "MemoryUsageBytes (Nodes cm ! 1) = 0"
    by blast
  have "length (Nodes cm) = 2 \<and> NodeName (Nodes cm ! 1) = ''node-b''
        \<and> MemoryAvailableBytes (Nodes cm ! 1) = 2048
        \<and> TotalCPUUsageMilliCores cm = 250 \<and> TotalMemoryCapacityBytes cm = 6144"
    using cm unfolding demo_snapshot by auto
  with m n zm zv i mi cm z show ?thesis by blast
qed

text \<open>
  Claim C6: in every snapshot, an entry of the per-node list whose allocatable CPU
  (memory) capacity is zero has the CPU (memory) usage percentage \<^verbatim>\<open>0.0\<close>, and when
  the total CPU (memory) capacity is zero the cluster-wide average is \<^verbatim>\<open>0.0\<close>: the
  division is not evaluated.
\<close>

theorem zero_capacity_gives_zero_percentage:
  assumes metrics: "metricsClient_NodeMetricses_List svc = Some (Inr nms)"
    and nodes: "kubeClient_Nodes_List svc = Inr nodes"
  shows "\<exists>cm. GetClusterMetricsSnapshot L svc = Inr cm
     \<and> (\<forall>e\<in>set (Nodes cm).
           (CPUAvailableMilliCores e = 0 \<longrightarrow> CPUUsagePercentage e = float64_zero L)
           \<and> (MemoryAvailableBytes e = 0 \<longrightarrow> MemUsagePercentage e = float64_zero L))
     \<and> (TotalCPUCapacityMilliCores cm = 0 \<longrightarrow> AverageCPUUsagePercentage cm = float64_zero L)
     \<and> (TotalMemoryCapacityBytes cm = 0 \<longrightarrow> AverageMemUsagePercentage cm = float64_zero L)"
  unfolding GetClusterMetricsSnapshot_eq [OF metrics nodes, of L]
  by (auto simp: node_entry_percentages percent_zero_capacity)

theorem zero_capacity_gives_zero_percentage_witness:
  "metricsClient_NodeMetricses_List demo_service = Some (Inr demo_metrics)
   \<and> kubeClient_Nodes_List demo_service = Inr demo_nodes
   \<and> (\<exists>cm. GetClusterMetricsSnapshot demo_lib demo_service = Inr cm
        \<and> CPUAvailableMilliCores (Nodes cm ! 1) = 0
        \<and> CPUUsagePercentage (Nodes cm ! 1) = float64_zero demo_lib)
   \<and> (\<exists>cm. GetClusterMetricsSnapshot demo_lib demo_service_no_capacity = Inr cm
        \<and> TotalCPUUsageMilliCores cm = 100
        \<and> TotalCPUCapacityMilliCores cm = 0 \<and> AverageCPUUsagePercentage cm = float64_zero demo_lib
        \<and> TotalMemoryCapacityBytes cm = 0 \<and> AverageMemUsagePercentage cm = float64_zero demo_lib
        \<and> MemoryAvailableBytes (Nodes cm ! 0) = 0 \<and> MemUsagePercentage (Nodes cm ! 0) = float64_zero demo_lib)"
proof -
  have m: "metricsClient_NodeMetricses_List demo_service = Some (Inr demo_metrics)"
    and n: "kubeClient_Nodes_List demo_service = Inr demo_nodes"
    by (simp_all add: demo_service_def)
  have m': "metricsClient_NodeMetricses_List demo_service_no_capacity =
      Some (Inr [\<lparr>Item_Name = ''node-c'', Usage = Mapping.of_alist [(''cpu'', 100), (''memory'', 5000000)]\<rparr>])"
    and n': "kubeClient_Nodes_List demo_service_no_capacity =
      Inr [\<lparr>Node_Name = ''node-c'', Status_Allocatable = Mapping.empty\<rparr>]"
    by (simp_all add: demo_service_no_capacity_def)
  have z: "float64_zero demo_lib = 0" by (simp add: demo_lib_def)
  from zero_capacity_gives_zero_percentage [OF m n, of demo_lib]
  have a: "\<exists>cm. GetClusterMetricsSnapshot demo_lib demo_service = Inr cm
        \<and> CPUAvailableMilliCores (Nodes cm ! 1) = 0
        \<and> CPUUsagePercentage (Nodes cm ! 1) = float64_zero demo_lib"
    unfolding demo_snapshot z by simp
  from zero_capacity_gives_zero_percentage [OF m' n', of demo_lib]
  have b: "\<exists>cm. GetClusterMetricsSnapshot demo_lib demo_service_no_capacity = Inr cm
        \<and> TotalCPUUsageMilliCores cm = 100
        \<and> TotalCPUCapacityMilliCores cm = 0 \<and> AverageCPUUsagePercentage cm = float64_zero demo_lib
        \<and> TotalMemoryCapacityBytes cm = 0 \<and> AverageMemUsagePercentage cm = float64_zero demo_lib
        \<and> MemoryAvailableBytes (Nodes cm ! 0) = 0 \<and> MemUsagePercentage (Nodes cm ! 0) = float64_zero demo_lib"
    unfolding demo_snapshot_no_capacity z by simp
  from m n a b show ?thesis by blast
qed

end
